theory Spec2Isabelle
  imports Complex_Main "HOL-Library.Word"
begin

section \<open>Anubis request gating: data model\<close>

text \<open>
  A shallow embedding of \<^verbatim>\<open>lib/anubis.go\<close> (package \<^verbatim>\<open>lib\<close>) and of
  \<^verbatim>\<open>policy.Bot\<close>.  Go strings are byte strings (\<^typ>\<open>string\<close>); Go's \<^verbatim>\<open>int\<close> is
  \<^typ>\<open>int\<close>; a \<^verbatim>\<open>time.Time\<close> is the number of nanoseconds since Go's zero time
  (January 1, year 1, 00:00:00 UTC), which is the origin \<^verbatim>\<open>Time.Round\<close> counts from.
  Logging (\<^verbatim>\<open>slog\<close>) has no effect on any result and is left out.
\<close>

type_synonym Time = int
type_synonym Duration = int

definition Second :: Duration where
  "Second = 1000000000"

definition Minute :: Duration where
  "Minute = 60 * Second"

definition Hour :: Duration where
  "Hour = 60 * Minute"

text \<open>\<^verbatim>\<open>config.Rule\<close> is a string type with four declared constants; every other
  value (\<^verbatim>\<open>RuleOther\<close> of a string that is none of the four, the empty string for the zero
  value) takes the \<^verbatim>\<open>default\<close> branch of a switch.\<close>

datatype Rule = RuleAllow | RuleDeny | RuleChallenge | RuleBenchmark | RuleOther string

datatype Algorithm = AlgorithmFast | AlgorithmSlow | AlgorithmOther string

record ChallengeRules =
  Difficulty :: int
  ReportAs :: int
  Algorithm :: Algorithm

text \<open>An \<^verbatim>\<open>*http.Request\<close>: the header map (keyed by canonical header names, as
  \<^verbatim>\<open>Header.Get\<close> and \<^verbatim>\<open>Header.Add\<close> canonicalise their key), the parsed form values,
  the cookies of the \<^verbatim>\<open>Cookie\<close> header in order, and the URL.\<close>

record Request =
  Header :: "string \<rightharpoonup> string list"
  Form :: "string \<rightharpoonup> string list"
  Cookies :: "(string \<times> string) list"
  URL :: string

definition Header_Get :: "(string \<rightharpoonup> string list) \<Rightarrow> string \<Rightarrow> string" where
  "Header_Get h key = (case h key of None \<Rightarrow> [] | Some [] \<Rightarrow> [] | Some (v # _) \<Rightarrow> v)"

definition Header_Add :: "(string \<rightharpoonup> string list) \<Rightarrow> string \<Rightarrow> string \<Rightarrow> (string \<rightharpoonup> string list)" where
  "Header_Add h key v = h(key \<mapsto> (case h key of None \<Rightarrow> [v] | Some vs \<Rightarrow> vs @ [v]))"

definition UserAgent :: "Request \<Rightarrow> string" where
  "UserAgent r = Header_Get (Header r) ''User-Agent''"

definition FormValue :: "Request \<Rightarrow> string \<Rightarrow> string" where
  "FormValue r key = Header_Get (Form r) key"

text \<open>\<^verbatim>\<open>policy.Checker\<close> is an interface with \<^verbatim>\<open>Check(*http.Request) (bool, error)\<close>
  and \<^verbatim>\<open>Hash() string\<close>.  A \<^verbatim>\<open>Bot\<close> holds one in \<^verbatim>\<open>Rules\<close> (an interface value,
  possibly nil) and a pointer \<^verbatim>\<open>Challenge\<close> (possibly nil).\<close>

record Checker =
  Check :: "Request \<Rightarrow> string + bool"
  Hash :: string

record Bot =
  Name :: string
  Action :: Rule
  Challenge :: "ChallengeRules option"
  Rules :: "Checker option"

text \<open>\<^verbatim>\<open>policy.CheckResult\<close>, with its fields \<^verbatim>\<open>Name\<close> and \<^verbatim>\<open>Rule\<close> written
  \<^verbatim>\<open>crName\<close> and \<^verbatim>\<open>crRule\<close> to keep them apart from those of \<^verbatim>\<open>Bot\<close>; the parsed
  policy; the options and the server, with the fields the handlers read (the DNSBL cache of
  the server is part of the state below).\<close>

record CheckResult =
  crName :: string
  crRule :: Rule

record ParsedConfig =
  Bots :: "Bot list"
  DNSBL :: bool
  DefaultDifficulty :: int

record Options =
  CookieDomain :: string
  CookieName :: string
  CookiePartitioned :: bool
  OGPassthrough :: bool
  WebmasterEmail :: string

record Server =
  priv :: string
  pub :: string
  policy :: ParsedConfig
  opts :: Options

text \<open>A \<^verbatim>\<open>float64\<close> is a rational number, an infinity or NaN.\<close>

datatype float64 = Finite rat | PosInf | NegInf | NaN

text \<open>The dynamic values an \<^verbatim>\<open>interface{}\<close> of a \<^verbatim>\<open>jwt.MapClaims\<close> holds; a key the
  map lacks reads as the nil interface.\<close>

datatype iface =
    VNil
  | VString string
  | VInt int
  | VInt64 int
  | VFloat64 float64
  | VBool bool
  | VOther

type_synonym MapClaims = "string \<rightharpoonup> iface"

definition claim :: "MapClaims \<Rightarrow> string \<Rightarrow> iface" where
  "claim m k = (case m k of None \<Rightarrow> VNil | Some v \<Rightarrow> v)"

datatype SameSite = SameSiteDefaultMode | SameSiteLaxMode | SameSiteStrictMode | SameSiteNoneMode

text \<open>The fields of \<^verbatim>\<open>http.Cookie\<close> that the code sets or reads; the others keep their
  zero value.\<close>

record Cookie =
  cookieName :: string
  cookieValue :: string
  cookieExpires :: Time
  cookieSameSite :: SameSite
  cookieDomain :: string
  cookiePartitioned :: bool
  cookiePath :: string

type_synonym DroneBLResponse = "8 word"

text \<open>Modelled from the spec: \<^verbatim>\<open>dnsbl.AllGood\<close> (package \<^verbatim>\<open>internal/dnsbl\<close> is not
  among the sources).  The classification is a byte, "all good" or a reason code taken from
  the final octet of the answer; the zero value of the type is "all good".\<close>

definition AllGood :: DroneBLResponse where
  "AllGood = 0"

text \<open>What a handler writes for a body: \<^verbatim>\<open>web.Base("Oh noes!", web.ErrorPage(msg, mail))\<close>,
  the challenge page component with its challenge, rules and Open Graph tags, or the
  benchmark page.\<close>

datatype page =
    ErrorPage string string
  | IndexPage string ChallengeRules "(string \<rightharpoonup> string) option"
  | BenchPage

text \<open>The functions of the Go standard library, of \<^verbatim>\<open>golang-jwt\<close> and of packages of the
  repository that \<^verbatim>\<open>lib/anubis.go\<close> only calls (\<^verbatim>\<open>internal\<close>, \<^verbatim>\<open>web\<close>,
  \<^verbatim>\<open>config\<close>, \<^verbatim>\<open>dnsbl\<close>) are parameters of the model, so every theorem holds
  whatever they compute.  \<^verbatim>\<open>SignedString\<close> and \<^verbatim>\<open>ParseWithClaims\<close> return
  \<^verbatim>\<open>None\<close> for an error (for the latter also when \<^verbatim>\<open>token.Valid\<close> is false);
  \<^verbatim>\<open>IntOfFloat64Overflow\<close> is the implementation-dependent result of converting a
  \<^verbatim>\<open>float64\<close> that no \<^verbatim>\<open>int\<close> represents.\<close>

record ext =
  SHA256sum :: "string \<Rightarrow> string"
  ParseIP :: "string \<Rightarrow> nat list option"
  FormatRFC3339 :: "Time \<Rightarrow> string"
  ParseFloat :: "string \<Rightarrow> float64 option"
  IntOfFloat64Overflow :: "float64 \<Rightarrow> int"
  SignedString :: "string \<Rightarrow> MapClaims \<Rightarrow> string option"
  ParseWithClaims :: "string \<Rightarrow> Time \<Rightarrow> string \<Rightarrow> MapClaims option"
  CookieValid :: "Cookie \<Rightarrow> bool"
  anubis_CookieName :: string
  RuleString :: "Rule \<Rightarrow> string"
  DroneBLResponseString :: "DroneBLResponse \<Rightarrow> string"
  BaseWithChallengeAndOGTags ::
    "string \<Rightarrow> ChallengeRules \<Rightarrow> (string \<rightharpoonup> string) option \<Rightarrow> string + page"

subsection \<open>Decimal formatting (\<^verbatim>\<open>%d\<close>)\<close>

definition digit_char :: "nat \<Rightarrow> char" where
  "digit_char d =
     (if d = 0 then CHR ''0'' else if d = 1 then CHR ''1'' else if d = 2 then CHR ''2''
      else if d = 3 then CHR ''3'' else if d = 4 then CHR ''4'' else if d = 5 then CHR ''5''
      else if d = 6 then CHR ''6'' else if d = 7 then CHR ''7'' else if d = 8 then CHR ''8''
      else CHR ''9'')"

fun string_of_nat :: "nat \<Rightarrow> string" where
  "string_of_nat n =
     (if n < 10 then [digit_char n] else string_of_nat (n div 10) @ [digit_char (n mod 10)])"

declare string_of_nat.simps [simp del]

definition itoa :: "int \<Rightarrow> string" where
  "itoa i = (if i < 0 then CHR ''-'' # string_of_nat (nat (- i)) else string_of_nat (nat i))"

section \<open>Policy evaluation: \<^verbatim>\<open>Server.check\<close>\<close>

datatype check_error =
    XRealIpNotSet
  | NotAnIPAddress string
  | CantRunCheck string string

text \<open>The two errors whose message starts with \<^verbatim>\<open>[misconfiguration]\<close>.\<close>

fun is_misconfiguration :: "check_error \<Rightarrow> bool" where
  "is_misconfiguration XRealIpNotSet = True"
| "is_misconfiguration (NotAnIPAddress _) = True"
| "is_misconfiguration (CantRunCheck _ _) = False"

text \<open>The result of a call that can return an error or panic (a nil dereference, a
  failed type assertion).\<close>

datatype 'a result = Ok 'a | Error check_error | Panic

definition cr :: "string \<Rightarrow> Rule \<Rightarrow> CheckResult" where
  "cr name rule = \<lparr> crName = name, crRule = rule \<rparr>"

text \<open>The loop over \<^verbatim>\<open>s.policy.Bots\<close>: \<^verbatim>\<open>None\<close> when the loop ends without a
  match.  Calling \<^verbatim>\<open>Check\<close> on a nil interface panics.\<close>

fun check_loop :: "Bot list \<Rightarrow> Request \<Rightarrow> (CheckResult \<times> Bot) option result" where
  "check_loop [] r = Ok None"
| "check_loop (b # bs) r =
     (case Rules b of
        None \<Rightarrow> Panic
      | Some c \<Rightarrow>
         (case Check c r of
            Inl err \<Rightarrow> Error (CantRunCheck (Name b) err)
          | Inr match \<Rightarrow>
              if match then Ok (Some (cr (''bot/'' @ Name b) (Action b), b))
              else check_loop bs r))"

definition default_rule :: "ParsedConfig \<Rightarrow> Bot" where
  "default_rule p =
     \<lparr> Name = [], Action = RuleOther [],
       Challenge = Some \<lparr> Difficulty = DefaultDifficulty p, ReportAs = DefaultDifficulty p,
                          Algorithm = AlgorithmFast \<rparr>,
       Rules = None \<rparr>"

text \<open>\<^verbatim>\<open>check\<close> returns the check result and a pointer to the rule; the pointer is
  never nil when the error is nil.\<close>

definition check :: "ext \<Rightarrow> Server \<Rightarrow> Request \<Rightarrow> (CheckResult \<times> Bot option) result" where
  "check e s r =
     (let host = Header_Get (Header r) ''X-Real-Ip'' in
      if host = [] then Error XRealIpNotSet
      else case ParseIP e host of
        None \<Rightarrow> Error (NotAnIPAddress host)
      | Some addr \<Rightarrow>
         (case check_loop (Bots (policy s)) r of
            Panic \<Rightarrow> Panic
          | Error err \<Rightarrow> Error err
          | Ok (Some (res, b)) \<Rightarrow> Ok (res, Some b)
          | Ok None \<Rightarrow> Ok (cr ''default/allow'' RuleAllow, Some (default_rule (policy s)))))"

section \<open>Challenge derivation: \<^verbatim>\<open>Server.challengeFor\<close>\<close>

text \<open>\<^verbatim>\<open>Time.Round(d)\<close> rounds to the nearest multiple of \<^verbatim>\<open>d\<close> since the zero time,
  halfway values rounding up; \<^verbatim>\<open>r\<close> is the remainder \<^verbatim>\<open>time.div\<close> returns, which is
  never negative.\<close>

definition Round :: "Time \<Rightarrow> Duration \<Rightarrow> Time" where
  "Round t d =
     (if d \<le> 0 then t
      else let r = t mod d in if r + r < d then t - r else t + (d - r))"

text \<open>\<^verbatim>\<open>PrivateKey.Seed()\<close>: the first 32 bytes of the private key.\<close>

definition Seed :: "string \<Rightarrow> string" where
  "Seed k = take 32 k"

text \<open>The string \<^verbatim>\<open>challengeFor\<close> formats and hashes; \<^verbatim>\<open>now\<close> is what its
  \<^verbatim>\<open>time.Now()\<close> returns.  \<^verbatim>\<open>%x\<close> of \<^verbatim>\<open>sha256.Sum256(seed)\<close> is the hex digest
  \<^verbatim>\<open>SHA256sum\<close> gives of the same bytes.\<close>

definition challengeData :: "ext \<Rightarrow> Server \<Rightarrow> Request \<Rightarrow> int \<Rightarrow> Time \<Rightarrow> string" where
  "challengeData e s r difficulty now =
     ''Accept-Language='' @ Header_Get (Header r) ''Accept-Language''
     @ '',X-Real-IP='' @ Header_Get (Header r) ''X-Real-Ip''
     @ '',User-Agent='' @ UserAgent r
     @ '',WeekTime='' @ FormatRFC3339 e (Round now (24 * 7 * Hour))
     @ '',Fingerprint='' @ SHA256sum e (Seed (priv s))
     @ '',Difficulty='' @ itoa difficulty"

definition challengeFor :: "ext \<Rightarrow> Server \<Rightarrow> Request \<Rightarrow> int \<Rightarrow> Time \<Rightarrow> string" where
  "challengeFor e s r difficulty now = SHA256sum e (challengeData e s r difficulty now)"

section \<open>Server state, environment and responses\<close>

text \<open>Modelled from the spec: the decaying map of package \<^verbatim>\<open>decaymap\<close> (not among the
  sources).  An entry carries its value and its expiry; \<^verbatim>\<open>Get\<close> of a key that is absent or
  whose expiry is not after now returns the zero value and \<^verbatim>\<open>false\<close> and removes the
  entry; \<^verbatim>\<open>Set\<close> stores the value with expiry now + ttl.\<close>

type_synonym DecayMap = "string \<rightharpoonup> (DroneBLResponse \<times> Time)"

definition DecayMap_Get :: "DecayMap \<Rightarrow> Time \<Rightarrow> string \<Rightarrow> DecayMap \<times> DroneBLResponse \<times> bool" where
  "DecayMap_Get m now k =
     (case m k of
        None \<Rightarrow> (m, 0, False)
      | Some (v, expiry) \<Rightarrow> if expiry \<le> now then (m(k := None), 0, False) else (m, v, True))"

definition DecayMap_Set :: "DecayMap \<Rightarrow> Time \<Rightarrow> string \<Rightarrow> DroneBLResponse \<Rightarrow> Duration \<Rightarrow> DecayMap" where
  "DecayMap_Set m now k v ttl = m(k \<mapsto> (v, now + ttl))"

text \<open>The mutable state a handler touches: the DNSBL cache of the server and the
  Prometheus metrics of the package.\<close>

record state =
  DNSBLCache :: DecayMap
  challengesIssued :: nat
  challengesValidated :: nat
  droneBLHits :: "DroneBLResponse \<Rightarrow> nat"
  failedValidations :: nat
  timeTaken :: "float64 list"
  Applications :: "string \<times> Rule \<Rightarrow> nat"

text \<open>What the world answers during one request: the clock at each place that reads it
  (every \<^verbatim>\<open>time.Now()\<close> of the source has a reading of its own), the DNSBL lookup
  (\<^verbatim>\<open>dnsbl.Lookup\<close> returns a response and an error, \<^verbatim>\<open>None\<close> for nil), the coin of
  \<^verbatim>\<open>randomJitter\<close>, and the Open Graph tags fetched for a URL.\<close>

datatype site =
    AtCacheGet | AtCacheSet | AtCookieExpiry | AtTokenParse | AtVerify | AtRenderIndex
  | AtPassChallenge | AtIat | AtNbf | AtExp | AtCookieExpires

record world =
  now :: "site \<Rightarrow> Time"
  Lookup :: "string \<Rightarrow> DroneBLResponse \<times> string option"
  randomJitter :: bool
  GetOGTags :: "string \<Rightarrow> string + (string \<rightharpoonup> string)"

text \<open>How a handler ends: a page rendered with a status code, the request handed to
  \<^verbatim>\<open>s.next\<close>, a redirect, or a panic.  Before that it may have written cookies to the
  response: \<^verbatim>\<open>s.ClearCookie(w)\<close> (not among the sources) or \<^verbatim>\<open>http.SetCookie\<close>.\<close>

datatype outcome =
    Rendered nat page
  | Forwarded Request
  | Redirected string nat
  | Panicked

datatype effect = ClearCookie | SetCookie Cookie

type_synonym handled = "state \<times> effect list \<times> outcome"

text \<open>\<^verbatim>\<open>rule.Challenge.Difficulty\<close> and \<^verbatim>\<open>rule.Challenge\<close>: a nil \<^verbatim>\<open>rule\<close> or a nil
  \<^verbatim>\<open>Challenge\<close> panics at the first, \<^verbatim>\<open>None\<close> here.\<close>

definition rule_Challenge :: "Bot option \<Rightarrow> ChallengeRules option" where
  "rule_Challenge rule = (case rule of None \<Rightarrow> None | Some b \<Rightarrow> Challenge b)"

text \<open>\<^verbatim>\<open>Bot.Hash\<close>; \<^verbatim>\<open>b.Rules.Hash()\<close> on a nil interface panics.\<close>

definition Bot_Hash :: "ext \<Rightarrow> Bot \<Rightarrow> string result" where
  "Bot_Hash e b =
     (case Rules b of
        None \<Rightarrow> Panic
      | Some c \<Rightarrow> Ok (SHA256sum e (Name b @ ''::'' @ Hash c)))"

section \<open>\<^verbatim>\<open>Server.RenderIndex\<close>\<close>

definition other_error :: string where
  "other_error = ''Other internal server error (contact the admin)''"

definition RenderIndex :: "ext \<Rightarrow> Server \<Rightarrow> world \<Rightarrow> Request \<Rightarrow> Bot option \<Rightarrow> outcome" where
  "RenderIndex e s w r rule =
     (case rule_Challenge rule of
        None \<Rightarrow> Panicked
      | Some c \<Rightarrow>
         (let challenge = challengeFor e s r (Difficulty c) (now w AtRenderIndex);
              ogTags = (if OGPassthrough (opts s)
                        then (case GetOGTags w (URL r) of Inl err \<Rightarrow> None | Inr tags \<Rightarrow> Some tags)
                        else None)
          in case BaseWithChallengeAndOGTags e challenge c ogTags of
               Inl err \<Rightarrow> Rendered 500 (ErrorPage other_error (WebmasterEmail (opts s)))
             | Inr component \<Rightarrow> Rendered 200 component))"

section \<open>The gating handler: \<^verbatim>\<open>Server.MaybeReverseProxy\<close>\<close>

definition misconfigured :: "string \<Rightarrow> string" where
  "misconfigured handler =
     ''Internal Server Error: administrator has misconfigured Anubis. Please contact the administrator and ask them to look for the logs around ''
     @ handler"

text \<open>The DNSBL block of the handler.  On a cache miss the lookup's result goes to
  variables declared inside the block (\<^verbatim>\<open>resp, err := dnsbl.Lookup(ip)\<close>): it is stored in
  the cache, error or not, and the \<^verbatim>\<open>resp\<close> tested afterwards is still the one
  \<^verbatim>\<open>Get\<close> returned.  The result is the new state and the response to report, if any.\<close>

definition dnsbl_block :: "Server \<Rightarrow> world \<Rightarrow> state \<Rightarrow> string \<Rightarrow> state \<times> DroneBLResponse option" where
  "dnsbl_block s w st ip =
     (if DNSBL (policy s) \<and> ip \<noteq> [] then
        (case DecayMap_Get (DNSBLCache st) (now w AtCacheGet) ip of
           (m, resp, ok) \<Rightarrow>
             (let st1 =
                (if \<not> ok then
                   (case Lookup w ip of
                      (resp', err) \<Rightarrow>
                        st\<lparr> DNSBLCache := DecayMap_Set m (now w AtCacheSet) ip resp' (24 * Hour),
                            droneBLHits := (droneBLHits st)(resp' := droneBLHits st resp' + 1) \<rparr>)
                 else st\<lparr> DNSBLCache := m \<rparr>)
              in if resp \<noteq> AllGood then (st1, Some resp) else (st1, None)))
      else (st, None))"

text \<open>\<^verbatim>\<open>r.Cookie(name)\<close>: the first cookie of the request with that name.  A cookie read
  from a request has a name and a value only, so its \<^verbatim>\<open>Expires\<close> is the zero time.\<close>

definition Request_Cookie :: "Request \<Rightarrow> string \<Rightarrow> Cookie option" where
  "Request_Cookie r name =
     (if name = [] then None
      else case find (\<lambda>c. fst c = name) (Cookies r) of
        None \<Rightarrow> None
      | Some c \<Rightarrow>
          Some \<lparr> cookieName = fst c, cookieValue = snd c, cookieExpires = 0,
                 cookieSameSite = SameSiteDefaultMode, cookieDomain = [],
                 cookiePartitioned = False, cookiePath = [] \<rparr>)"

text \<open>\<^verbatim>\<open>int(v)\<close> of a \<^verbatim>\<open>float64\<close>: the fraction is discarded (truncation towards
  zero).\<close>

definition int_of_float64 :: "ext \<Rightarrow> float64 \<Rightarrow> int" where
  "int_of_float64 e v =
     (case v of
        Finite q \<Rightarrow>
          (let t = (if q < 0 then - \<lfloor>- q\<rfloor> else \<lfloor>q\<rfloor>)
           in if - (2 ^ 63) \<le> t \<and> t < 2 ^ 63 then t else IntOfFloat64Overflow e v)
      | _ \<Rightarrow> IntOfFloat64Overflow e v)"

definition clear_and_render :: "ext \<Rightarrow> Server \<Rightarrow> world \<Rightarrow> state \<Rightarrow> Request \<Rightarrow> Bot option \<Rightarrow> handled" where
  "clear_and_render e s w st r rule = (st, [ClearCookie], RenderIndex e s w r rule)"

text \<open>The handler from \<^verbatim>\<open>claims, ok := token.Claims.(jwt.MapClaims)\<close> on: the full
  verification of a token that parsed.  The claims \<^verbatim>\<open>ParseWithClaims\<close> was given are a
  \<^verbatim>\<open>jwt.MapClaims\<close>, so that assertion holds.\<close>

definition full_verification ::
    "ext \<Rightarrow> Server \<Rightarrow> world \<Rightarrow> state \<Rightarrow> Request \<Rightarrow> Bot option \<Rightarrow> MapClaims \<Rightarrow> handled" where
  "full_verification e s w st r rule claims =
     (case rule_Challenge rule of
        None \<Rightarrow> (st, [], Panicked)
      | Some c \<Rightarrow>
         (let challenge = challengeFor e s r (Difficulty c) (now w AtVerify) in
          if claim claims ''challenge'' \<noteq> VString challenge then clear_and_render e s w st r rule
          else
            (let nonce = (case claim claims ''nonce'' of VFloat64 v \<Rightarrow> int_of_float64 e v | _ \<Rightarrow> 0);
                 calcString = challenge @ itoa nonce;
                 calculated = SHA256sum e calcString
             in case claim claims ''response'' of
                  VString response \<Rightarrow>
                    if response \<noteq> calculated
                    then clear_and_render e s w (st\<lparr> failedValidations := failedValidations st + 1 \<rparr>) r rule
                    else (st, [], Forwarded (r\<lparr> Header := Header_Add (Header r) ''X-Anubis-Status'' ''PASS-FULL'' \<rparr>))
                | _ \<Rightarrow> (st, [], Panicked))))"

text \<open>The handler from \<^verbatim>\<open>ckie, err := r.Cookie(anubis.CookieName)\<close> on, reached when the
  action is \<^verbatim>\<open>CHALLENGE\<close>.\<close>

definition cookie_check ::
    "ext \<Rightarrow> Server \<Rightarrow> world \<Rightarrow> state \<Rightarrow> Request \<Rightarrow> Bot option \<Rightarrow> handled" where
  "cookie_check e s w st r rule =
     (case Request_Cookie r (anubis_CookieName e) of
        None \<Rightarrow> clear_and_render e s w st r rule
      | Some ckie \<Rightarrow>
          if \<not> CookieValid e ckie then clear_and_render e s w st r rule
          else if cookieExpires ckie < now w AtCookieExpiry \<and> cookieExpires ckie \<noteq> 0
          then clear_and_render e s w st r rule
          else
            (case ParseWithClaims e (pub s) (now w AtTokenParse) (cookieValue ckie) of
               None \<Rightarrow> clear_and_render e s w st r rule
             | Some claims \<Rightarrow>
                 if randomJitter w
                 then (st, [], Forwarded (r\<lparr> Header := Header_Add (Header r) ''X-Anubis-Status'' ''PASS-BRIEF'' \<rparr>))
                 else full_verification e s w st r rule claims))"

text \<open>The two \<^verbatim>\<open>r.Header.Add\<close> calls that record the check result on the request.\<close>

definition add_rule_headers :: "ext \<Rightarrow> CheckResult \<Rightarrow> Request \<Rightarrow> Request" where
  "add_rule_headers e res r =
     r\<lparr> Header := Header_Add (Header_Add (Header r) ''X-Anubis-Rule'' (crName res))
                          ''X-Anubis-Action'' (RuleString e (crRule res)) \<rparr>"

text \<open>The \<^verbatim>\<open>switch cr.Rule\<close> of the handler and, for a challenge, what follows it.\<close>

definition rule_switch ::
    "ext \<Rightarrow> Server \<Rightarrow> world \<Rightarrow> state \<Rightarrow> Request \<Rightarrow> CheckResult \<Rightarrow> Bot option \<Rightarrow> handled" where
  "rule_switch e s w st r res rule =
     (case crRule res of
        RuleAllow \<Rightarrow> (st, [], Forwarded r)
      | RuleDeny \<Rightarrow>
          (case rule of
             None \<Rightarrow> (st, [ClearCookie], Rendered 500 (ErrorPage other_error (WebmasterEmail (opts s))))
           | Some b \<Rightarrow>
              (case Bot_Hash e b of
                 Ok hash \<Rightarrow>
                   (st, [ClearCookie],
                    Rendered 200 (ErrorPage (''Access Denied: error code '' @ hash) (WebmasterEmail (opts s))))
               | _ \<Rightarrow> (st, [ClearCookie], Panicked)))
      | RuleChallenge \<Rightarrow> cookie_check e s w st r rule
      | RuleBenchmark \<Rightarrow> (st, [], Rendered 200 BenchPage)
      | RuleOther x \<Rightarrow>
          (st, [ClearCookie], Rendered 500 (ErrorPage other_error (WebmasterEmail (opts s)))))"

definition MaybeReverseProxy :: "ext \<Rightarrow> Server \<Rightarrow> world \<Rightarrow> state \<Rightarrow> Request \<Rightarrow> handled" where
  "MaybeReverseProxy e s w st r0 =
     (case check e s r0 of
        Panic \<Rightarrow> (st, [], Panicked)
      | Error err \<Rightarrow>
          (st, [], Rendered 500 (ErrorPage (misconfigured ''\"maybeReverseProxy\"'') (WebmasterEmail (opts s))))
      | Ok (res, rule) \<Rightarrow>
         (let r = add_rule_headers e res r0;
              st0 = st\<lparr> Applications := (Applications st)
                       ((crName res, crRule res) := Applications st (crName res, crRule res) + 1) \<rparr>;
              ip = Header_Get (Header r) ''X-Real-Ip''
          in case dnsbl_block s w st0 ip of
               (st1, Some resp) \<Rightarrow>
                 (st1, [], Rendered 200 (ErrorPage
                    (''DroneBL reported an entry: '' @ DroneBLResponseString e resp
                     @ '', see https://dronebl.org/lookup?ip='' @ ip) (WebmasterEmail (opts s))))
             | (st1, None) \<Rightarrow> rule_switch e s w st1 r res rule))"

section \<open>The pass endpoint: \<^verbatim>\<open>Server.PassChallenge\<close>\<close>

text \<open>\<^verbatim>\<open>strconv.Atoi\<close>: an optional sign, then decimal digits, at least one; the value
  must fit an \<^verbatim>\<open>int\<close> (64 bits).\<close>

definition is_digit :: "char \<Rightarrow> bool" where
  "is_digit c = (c \<in> set ''0123456789'')"

definition digit_val :: "char \<Rightarrow> nat" where
  "digit_val c = of_char c - 48"

definition nat_of_digits :: "string \<Rightarrow> nat" where
  "nat_of_digits ds = foldl (\<lambda>n c. 10 * n + digit_val c) 0 ds"

definition Atoi :: "string \<Rightarrow> int option" where
  "Atoi s =
     (let neg = (case s of [] \<Rightarrow> False | c # _ \<Rightarrow> c = CHR ''-'');
          ds = (case s of [] \<Rightarrow> [] | c # cs \<Rightarrow> if c = CHR ''-'' \<or> c = CHR ''+'' then cs else s)
      in if ds = [] \<or> \<not> list_all is_digit ds then None
         else (let n = int (nat_of_digits ds)
               in if neg then (if n \<le> 2 ^ 63 then Some (- n) else None)
                  else (if n < 2 ^ 63 then Some n else None)))"

text \<open>\<^verbatim>\<open>strings.HasPrefix\<close>, and \<^verbatim>\<open>Time.Unix\<close>: the seconds since January 1, 1970
  UTC, which is 62135596800 seconds after the zero time.\<close>

definition HasPrefix :: "string \<Rightarrow> string \<Rightarrow> bool" where
  "HasPrefix s p = (length p \<le> length s \<and> take (length p) s = p)"

definition Unix :: "Time \<Rightarrow> int" where
  "Unix t = t div Second - 62135596800"

definition invalid_response :: "Server \<Rightarrow> state \<Rightarrow> handled" where
  "invalid_response s st =
     (st\<lparr> failedValidations := failedValidations st + 1 \<rparr>, [ClearCookie],
      Rendered 403 (ErrorPage ''invalid response'' (WebmasterEmail (opts s))))"

definition PassChallenge :: "ext \<Rightarrow> Server \<Rightarrow> world \<Rightarrow> state \<Rightarrow> Request \<Rightarrow> handled" where
  "PassChallenge e s w st r =
     (case check e s r of
        Panic \<Rightarrow> (st, [], Panicked)
      | Error err \<Rightarrow>
          (st, [], Rendered 500 (ErrorPage (misconfigured ''\"passChallenge\".'') (WebmasterEmail (opts s))))
      | Ok (res, rule) \<Rightarrow>
         (let nonceStr = FormValue r ''nonce'' in
          if nonceStr = []
          then (st, [ClearCookie], Rendered 500 (ErrorPage ''missing nonce'' (WebmasterEmail (opts s))))
          else
           (let elapsedTimeStr = FormValue r ''elapsedTime'' in
            if elapsedTimeStr = []
            then (st, [ClearCookie], Rendered 500 (ErrorPage ''missing elapsedTime'' (WebmasterEmail (opts s))))
            else
             (case ParseFloat e elapsedTimeStr of
                None \<Rightarrow>
                  (st, [ClearCookie], Rendered 500 (ErrorPage ''invalid elapsedTime'' (WebmasterEmail (opts s))))
              | Some elapsedTime \<Rightarrow>
                 (let st1 = st\<lparr> timeTaken := timeTaken st @ [elapsedTime] \<rparr>;
                      response = FormValue r ''response'';
                      redir = FormValue r ''redir''
                  in case rule_Challenge rule of
                       None \<Rightarrow> (st1, [], Panicked)
                     | Some c \<Rightarrow>
                        (let challenge = challengeFor e s r (Difficulty c) (now w AtPassChallenge) in
                         case Atoi nonceStr of
                           None \<Rightarrow>
                             (st1, [ClearCookie],
                              Rendered 500 (ErrorPage ''invalid nonce'' (WebmasterEmail (opts s))))
                         | Some nonce \<Rightarrow>
                            (let calcString = challenge @ itoa nonce;
                                 calculated = SHA256sum e calcString
                             in if response \<noteq> calculated then invalid_response s st1
                                else if Difficulty c < 0 then (st1, [], Panicked)
                                else if \<not> HasPrefix response (replicate (nat (Difficulty c)) CHR ''0'')
                                then invalid_response s st1
                                else
                                 (case SignedString e (priv s)
                                         [''challenge'' \<mapsto> VString challenge,
                                          ''nonce'' \<mapsto> VInt nonce,
                                          ''response'' \<mapsto> VString response,
                                          ''iat'' \<mapsto> VInt64 (Unix (now w AtIat)),
                                          ''nbf'' \<mapsto> VInt64 (Unix (now w AtNbf + (- 1) * Minute)),
                                          ''exp'' \<mapsto> VInt64 (Unix (now w AtExp + 24 * 7 * Hour))] of
                                    None \<Rightarrow>
                                      (st1, [ClearCookie],
                                       Rendered 500 (ErrorPage ''failed to sign JWT'' (WebmasterEmail (opts s))))
                                  | Some tokenString \<Rightarrow>
                                      (st1\<lparr> challengesValidated := challengesValidated st1 + 1 \<rparr>,
                                       [SetCookie \<lparr> cookieName = anubis_CookieName e,
                                                    cookieValue = tokenString,
                                                    cookieExpires = now w AtCookieExpires + 24 * 7 * Hour,
                                                    cookieSameSite = SameSiteLaxMode,
                                                    cookieDomain = CookieDomain (opts s),
                                                    cookiePartitioned = CookiePartitioned (opts s),
                                                    cookiePath = ''/'' \<rparr>],
                                       Redirected redir 302)))))))))"

text \<open>\<^verbatim>\<open>Header.Values\<close>: all the values of a header.\<close>

definition Header_Values :: "(string \<rightharpoonup> string list) \<Rightarrow> string \<Rightarrow> string list" where
  "Header_Values h key = (case h key of None \<Rightarrow> [] | Some vs \<Rightarrow> vs)"

text \<open>The status code a response carries, if the handler wrote one itself.\<close>

fun status :: "outcome \<Rightarrow> nat option" where
  "status (Rendered code p) = Some code"
| "status (Redirected url code) = Some code"
| "status (Forwarded r) = None"
| "status Panicked = None"

text \<open>When the DNSBL block reports a listing: the list is enabled, the client IP is set,
  and the cache holds an entry for it that has not expired and is not "all good".\<close>

definition dnsbl_listed :: "Server \<Rightarrow> world \<Rightarrow> state \<Rightarrow> string \<Rightarrow> bool" where
  "dnsbl_listed s w st ip =
     (DNSBL (policy s) \<and> ip \<noteq> [] \<and>
      (case DNSBLCache st ip of
         None \<Rightarrow> False
       | Some (v, expiry) \<Rightarrow> now w AtCacheGet < expiry \<and> v \<noteq> AllGood))"

section \<open>A sample instance of the parameters\<close>

text \<open>To run the model on concrete requests the parameters need values.  Two of them
  follow the Go library: \<^verbatim>\<open>net.ParseIP\<close> (\<^verbatim>\<open>netip.ParseAddr\<close> without a zone: dotted
  decimal IPv4 with no leading zeros, or IPv6 groups with at most one \<^verbatim>\<open>::\<close> and an
  optional trailing IPv4) and the \<^verbatim>\<open>time.RFC3339\<close> layout of a UTC time.\<close>

definition is_hex :: "char \<Rightarrow> bool" where
  "is_hex c = (c \<in> set ''0123456789abcdefABCDEF'')"

definition hex_val :: "char \<Rightarrow> nat" where
  "hex_val c = (if is_digit c then of_char c - 48
                else if c \<in> set ''abcdef'' then of_char c - 87 else of_char c - 55)"

definition nat_of_hex :: "string \<Rightarrow> nat" where
  "nat_of_hex ds = foldl (\<lambda>n c. 16 * n + hex_val c) 0 ds"

fun split_on :: "char \<Rightarrow> string \<Rightarrow> string list" where
  "split_on sep [] = [[]]"
| "split_on sep (c # cs) =
     (if c = sep then [] # split_on sep cs
      else (case split_on sep cs of [] \<Rightarrow> [[c]] | f # fs \<Rightarrow> (c # f) # fs))"

definition ipv4_field :: "string \<Rightarrow> nat option" where
  "ipv4_field f =
     (if f = [] \<or> \<not> list_all is_digit f then None
      else if 1 < length f \<and> hd f = CHR ''0'' then None
      else if 255 < nat_of_digits f then None
      else Some (nat_of_digits f))"

definition parseIPv4 :: "string \<Rightarrow> nat list option" where
  "parseIPv4 s =
     (case map ipv4_field (split_on CHR ''.'' s) of
        [Some a, Some b, Some c, Some d] \<Rightarrow> Some [a, b, c, d]
      | _ \<Rightarrow> None)"

function v6loop :: "string \<Rightarrow> nat list \<Rightarrow> nat option \<Rightarrow> (string \<times> nat list \<times> nat option) option" where
  "v6loop s ip ellipsis =
     (if 16 \<le> length ip then Some (s, ip, ellipsis)
      else
       (let hex = takeWhile is_hex s; rest = dropWhile is_hex s in
        if 4 < length hex \<or> hex = [] then None
        else if rest \<noteq> [] \<and> hd rest = CHR ''.'' then
          (if ellipsis = None \<and> length ip \<noteq> 12 then None
           else if 16 < length ip + 4 then None
           else (case parseIPv4 s of None \<Rightarrow> None | Some f \<Rightarrow> Some ([], ip @ f, ellipsis)))
        else
          (let ip' = ip @ [nat_of_hex hex div 256, nat_of_hex hex mod 256] in
           if rest = [] then Some ([], ip', ellipsis)
           else if hd rest \<noteq> CHR '':'' \<or> length rest = 1 then None
           else if hd (tl rest) = CHR '':'' then
             (if ellipsis \<noteq> None then None
              else if tl (tl rest) = [] then Some ([], ip', Some (length ip'))
              else v6loop (tl (tl rest)) ip' (Some (length ip')))
           else v6loop (tl rest) ip' ellipsis)))"
  by pat_completeness auto
termination
proof (relation "measure (\<lambda>(s, ip, ellipsis). length s)")
  show "wf (measure (\<lambda>(s, ip, ellipsis). length s))" by simp
next
  fix s :: string and ip :: "nat list" and ellipsis :: "nat option" and x xa xb
  assume "xa = dropWhile is_hex s" "xa \<noteq> []"
  then have "length xa \<le> length s" "0 < length xa"
    using length_dropWhile_le [of is_hex s] by simp_all
  then show "((tl (tl xa), xb, Some (length xb)), s, ip, ellipsis) \<in> measure (\<lambda>(s, ip, ellipsis). length s)"
    by (cases xa) auto
next
  fix s :: string and ip :: "nat list" and ellipsis :: "nat option" and x xa xb
  assume "xa = dropWhile is_hex s" "xa \<noteq> []"
  then have "length xa \<le> length s" "0 < length xa"
    using length_dropWhile_le [of is_hex s] by simp_all
  then show "((tl xa, xb, ellipsis), s, ip, ellipsis) \<in> measure (\<lambda>(s, ip, ellipsis). length s)"
    by (cases xa) auto
qed

declare v6loop.simps [simp del]

definition parseIPv6 :: "string \<Rightarrow> nat list option" where
  "parseIPv6 s =
     (if CHR ''%'' \<in> set s then None
      else if take 2 s = ''::'' \<and> drop 2 s = [] then Some (replicate 16 0)
      else
       (case (if take 2 s = ''::'' then v6loop (drop 2 s) [] (Some 0) else v6loop s [] None) of
          None \<Rightarrow> None
        | Some (rest, ip, ellipsis) \<Rightarrow>
            if rest \<noteq> [] then None
            else if length ip < 16 then
              (case ellipsis of
                 None \<Rightarrow> None
               | Some k \<Rightarrow> Some (take k ip @ replicate (16 - length ip) 0 @ drop k ip))
            else if ellipsis \<noteq> None then None
            else Some ip))"

definition net_ParseIP :: "string \<Rightarrow> nat list option" where
  "net_ParseIP s =
     (case find (\<lambda>c. c \<in> set ''.:%'') s of
        None \<Rightarrow> None
      | Some c \<Rightarrow>
          if c = CHR ''.'' then map_option (\<lambda>f. replicate 10 0 @ [255, 255] @ f) (parseIPv4 s)
          else if c = CHR '':'' then parseIPv6 s
          else None)"

text \<open>The proleptic Gregorian date (year, month, day) of a day number counted from January 1,
  year 1, computed in steps from the era of 400 years, the day of the era, the year of the era,
  the day of the year and the month counted from March; then the layout
  \<^verbatim>\<open>2006-01-02T15:04:05Z\<close> of the seconds since the zero time.\<close>

definition pad2 :: "nat \<Rightarrow> string" where
  "pad2 n = (if n < 10 then CHR ''0'' # string_of_nat n else string_of_nat n)"

definition pad4 :: "nat \<Rightarrow> string" where
  "pad4 n =
     (if n < 10 then ''000'' @ string_of_nat n
      else if n < 100 then ''00'' @ string_of_nat n
      else if n < 1000 then CHR ''0'' # string_of_nat n
      else string_of_nat n)"

definition civil_from_mp :: "nat \<Rightarrow> nat \<Rightarrow> nat \<Rightarrow> nat \<times> nat \<times> nat" where
  "civil_from_mp y doy mp =
     (if mp < 10 then (y, mp + 3, doy - (153 * mp + 2) div 5 + 1)
      else (y + 1, mp - 9, doy - (153 * mp + 2) div 5 + 1))"

definition civil_from_doy :: "nat \<Rightarrow> nat \<Rightarrow> nat \<times> nat \<times> nat" where
  "civil_from_doy y doy = civil_from_mp y doy ((5 * doy + 2) div 153)"

definition civil_from_yoe :: "nat \<Rightarrow> nat \<Rightarrow> nat \<Rightarrow> nat \<times> nat \<times> nat" where
  "civil_from_yoe era doe yoe =
     civil_from_doy (yoe + era * 400) (doe - (365 * yoe + yoe div 4 - yoe div 100))"

definition civil_from_doe :: "nat \<Rightarrow> nat \<Rightarrow> nat \<times> nat \<times> nat" where
  "civil_from_doe era doe =
     civil_from_yoe era doe ((doe - doe div 1460 + doe div 36524 - doe div 146096) div 365)"

definition civil_from_days :: "nat \<Rightarrow> nat \<times> nat \<times> nat" where
  "civil_from_days d = civil_from_doe ((d + 306) div 146097) ((d + 306) mod 146097)"

definition format_date :: "nat \<times> nat \<times> nat \<Rightarrow> nat \<Rightarrow> string" where
  "format_date date sod =
     (case date of
        (y, m, d) \<Rightarrow>
          pad4 y @ ''-'' @ pad2 m @ ''-'' @ pad2 d @ ''T'' @ pad2 (sod div 3600) @ '':''
          @ pad2 (sod mod 3600 div 60) @ '':'' @ pad2 (sod mod 60) @ ''Z'')"

definition format_seconds :: "nat \<Rightarrow> string" where
  "format_seconds secs = format_date (civil_from_days (secs div 86400)) (secs mod 86400)"

definition RFC3339 :: "Time \<Rightarrow> string" where
  "RFC3339 t = format_seconds (nat (t div Second))"

text \<open>The other parameters get stand-ins: the digest is the identity, a signature is a
  fixed token, no token parses, \<^verbatim>\<open>ParseFloat\<close> reads decimal integers.  The theorems
  below do not depend on these choices; only the evaluations at concrete inputs use them.\<close>

definition sample :: ext where
  "sample =
     \<lparr> SHA256sum = (\<lambda>text. text),
       ParseIP = net_ParseIP,
       FormatRFC3339 = RFC3339,
       ParseFloat = (\<lambda>s. map_option (\<lambda>i. Finite (of_int i)) (Atoi s)),
       IntOfFloat64Overflow = (\<lambda>v. - (2 ^ 63)),
       SignedString = (\<lambda>key claims. Some ''token''),
       ParseWithClaims = (\<lambda>key t token. None),
       CookieValid = (\<lambda>c. True),
       anubis_CookieName = ''within.website-x-cmd-anubis-auth'',
       RuleString = (\<lambda>rule. case rule of RuleAllow \<Rightarrow> ''ALLOW'' | RuleDeny \<Rightarrow> ''DENY''
                      | RuleChallenge \<Rightarrow> ''CHALLENGE'' | RuleBenchmark \<Rightarrow> ''DEBUG_BENCHMARK''
                      | RuleOther x \<Rightarrow> x),
       DroneBLResponseString = (\<lambda>resp. itoa (uint resp)),
       BaseWithChallengeAndOGTags = (\<lambda>challenge rules ogTags. Inr (IndexPage challenge rules ogTags)) \<rparr>"

text \<open>A request with the given headers, form values and cookies; a checker that answers
  the same for every request; a rule over it; a server with the given rules.\<close>

definition request :: "(string \<times> string) list \<Rightarrow> (string \<times> string) list \<Rightarrow> (string \<times> string) list \<Rightarrow> Request" where
  "request hs fs cs =
     \<lparr> Header = map_of (map (\<lambda>(k, v). (k, [v])) hs),
       Form = map_of (map (\<lambda>(k, v). (k, [v])) fs),
       Cookies = cs, URL = ''/'' \<rparr>"

definition constant_checker :: "bool \<Rightarrow> Checker" where
  "constant_checker m = \<lparr> Check = (\<lambda>r. Inr m), Hash = ''constant'' \<rparr>"

definition bot :: "string \<Rightarrow> Rule \<Rightarrow> int \<Rightarrow> bool \<Rightarrow> Bot" where
  "bot name action d m =
     \<lparr> Name = name, Action = action,
       Challenge = Some \<lparr> Difficulty = d, ReportAs = d, Algorithm = AlgorithmFast \<rparr>,
       Rules = Some (constant_checker m) \<rparr>"

definition server :: "Bot list \<Rightarrow> bool \<Rightarrow> int \<Rightarrow> Server" where
  "server bots dnsbl d =
     \<lparr> priv = replicate 64 CHR ''k'', pub = replicate 32 CHR ''k'',
       policy = \<lparr> Bots = bots, DNSBL = dnsbl, DefaultDifficulty = d \<rparr>,
       opts = \<lparr> CookieDomain = ''local.cetacean.club'', CookieName = [], CookiePartitioned = True,
                OGPassthrough = False, WebmasterEmail = [] \<rparr> \<rparr>"

definition quiet :: state where
  "quiet =
     \<lparr> DNSBLCache = Map.empty, challengesIssued = 0, challengesValidated = 0,
       droneBLHits = (\<lambda>resp. 0), failedValidations = 0, timeTaken = [],
       Applications = (\<lambda>label. 0) \<rparr>"

definition world_at :: "Time \<Rightarrow> world" where
  "world_at t =
     \<lparr> now = (\<lambda>site. t), Lookup = (\<lambda>ip. (AllGood, None)), randomJitter = False,
       GetOGTags = (\<lambda>url. Inr Map.empty) \<rparr>"

text \<open>A submission to the pass endpoint in the manner of the repository's tests: nonce 0,
  elapsed time 420, and as response the digest of the challenge followed by \<^verbatim>\<open>0\<close>, for the
  server without rules whose default difficulty is \<^verbatim>\<open>d\<close>.\<close>

definition solved :: "int \<Rightarrow> Time \<Rightarrow> Request" where
  "solved d t =
     request [(''X-Real-Ip'', ''127.0.0.1'')]
       [(''nonce'', ''0''), (''elapsedTime'', ''420''), (''redir'', ''/''),
        (''response'',
         challengeFor sample (server [] False d) (request [(''X-Real-Ip'', ''127.0.0.1'')] [] []) d t @ ''0'')]
       []"

text \<open>A cache that holds a listing (reason code 3) for the client, and a world whose
  DNSBL lookup fails.\<close>

definition listing :: state where
  "listing = quiet\<lparr> DNSBLCache := [''127.0.0.1'' \<mapsto> (3, 24 * Hour)] \<rparr>"

definition failing_lookup :: world where
  "failing_lookup = (world_at 0)\<lparr> Lookup := (\<lambda>ip. (255, Some ''lookup: i/o timeout'')) \<rparr>"

text \<open>A signature check that reads the token \<^verbatim>\<open>token\<close> as the given claims; a server
  that challenges every request, at difficulty 0; a visitor who presents the token in the
  cookie; and the challenge of that visitor at time 0.\<close>

definition token_ext :: "MapClaims \<Rightarrow> ext" where
  "token_ext claims =
     sample\<lparr> ParseWithClaims := (\<lambda>key t token. if token = ''token'' then Some claims else None) \<rparr>"

definition challenge_server :: Server where
  "challenge_server = server [bot ''all'' RuleChallenge 0 True] False 4"

definition visitor :: Request where
  "visitor = request [(''X-Real-Ip'', ''127.0.0.1'')] [] [(''within.website-x-cmd-anubis-auth'', ''token'')]"

definition week_challenge :: string where
  "week_challenge = challengeFor sample challenge_server visitor 0 0"

text \<open>Two instants: Monday, April 21, 2025, 00:00:00 UTC, a multiple of 7 days since the
  zero time; and Thursday, April 24, 2025, 00:00:00 UTC, a multiple of 7 days since January 1,
  1970.\<close>

definition monday :: Time where
  "monday = 63880790400000000000"

definition thursday :: Time where
  "thursday = 63881049600000000000"

definition Day :: Duration where
  "Day = 24 * Hour"

text \<open>A second instance of the JWT library, in which a token shows its claims.
  \<^verbatim>\<open>SignedString\<close> writes the six claims of a session token in order, each followed by
  \<^verbatim>\<open>|\<close> (a string after the letter \<^verbatim>\<open>s\<close>, an integer after the letter \<^verbatim>\<open>n\<close>,
  nothing for a claim that is absent), and then the public half of the key where the signature
  would be.  \<^verbatim>\<open>ParseWithClaims\<close> compares that last field with the key and reads the
  claims back, numbers as \<^verbatim>\<open>float64\<close> the way \<^verbatim>\<open>encoding/json\<close> does; as the
  options of the handler ask, \<^verbatim>\<open>exp\<close> must be there and after now, and \<^verbatim>\<open>nbf\<close>,
  when it is there, must not be after now.\<close>

definition jwt_keys :: "string list" where
  "jwt_keys = [''challenge'', ''nonce'', ''response'', ''iat'', ''nbf'', ''exp'']"

definition jwt_value :: "iface \<Rightarrow> string" where
  "jwt_value v =
     (case v of
        VString x \<Rightarrow> CHR ''s'' # x
      | VInt n \<Rightarrow> CHR ''n'' # itoa n
      | VInt64 n \<Rightarrow> CHR ''n'' # itoa n
      | _ \<Rightarrow> [])"

definition jwt_encode :: "string \<Rightarrow> MapClaims \<Rightarrow> string" where
  "jwt_encode key claims =
     concat (map (\<lambda>k. jwt_value (claim claims k) @ ''|'') jwt_keys) @ drop 32 key"

definition jwt_read :: "string \<Rightarrow> iface option" where
  "jwt_read f =
     (case f of
        [] \<Rightarrow> Some VNil
      | c # x \<Rightarrow>
          if c = CHR ''s'' then Some (VString x)
          else if c = CHR ''n'' then map_option (\<lambda>n. VFloat64 (Finite (of_int n))) (Atoi x)
          else None)"

definition jwt_decode :: "string \<Rightarrow> string \<Rightarrow> MapClaims option" where
  "jwt_decode key token =
     (case split_on CHR ''|'' token of
        [c, n, r, i, b, x, sig] \<Rightarrow>
          if sig \<noteq> key then None
          else map_option (\<lambda>vs. map_of (filter (\<lambda>kv. snd kv \<noteq> VNil) (zip jwt_keys vs)))
                 (those (map jwt_read [c, n, r, i, b, x]))
      | _ \<Rightarrow> None)"

definition jwt_verify :: "string \<Rightarrow> Time \<Rightarrow> string \<Rightarrow> MapClaims option" where
  "jwt_verify key t token =
     (case jwt_decode key token of
        None \<Rightarrow> None
      | Some claims \<Rightarrow>
         (case claim claims ''exp'' of
            VFloat64 (Finite x) \<Rightarrow>
              if of_int (Unix t) < x
                 \<and> (case claim claims ''nbf'' of
                       VNil \<Rightarrow> True
                     | VFloat64 (Finite b) \<Rightarrow> b \<le> of_int (Unix t)
                     | _ \<Rightarrow> False)
              then Some claims else None
          | _ \<Rightarrow> None))"

definition jwt_ext :: ext where
  "jwt_ext = sample\<lparr> SignedString := (\<lambda>key claims. Some (jwt_encode key claims)),
                     ParseWithClaims := jwt_verify \<rparr>"

text \<open>What the gating handler reads of a claim when the token verifies.\<close>

definition read_claim :: "MapClaims option \<Rightarrow> string \<Rightarrow> iface option" where
  "read_claim parsed k = map_option (\<lambda>claims. claim claims k) parsed"

text \<open>A client at 127.0.0.1 that presents a token in the session cookie, and its challenge at
  difficulty 0 in the week of \<^verbatim>\<open>monday\<close>.\<close>

definition bearer :: "string \<Rightarrow> Request" where
  "bearer token =
     request [(''X-Real-Ip'', ''127.0.0.1'')] [] [(''within.website-x-cmd-anubis-auth'', token)]"

definition monday_challenge :: string where
  "monday_challenge = challengeFor sample challenge_server (bearer []) 0 monday"

text \<open>The claims the pass endpoint signs for the submission \<^verbatim>\<open>solved\<close> (nonce 0, the
  response the challenge followed by \<^verbatim>\<open>0\<close>), and the same claims without
  \<^verbatim>\<open>response\<close>.\<close>

definition session :: "string \<Rightarrow> int \<Rightarrow> int \<Rightarrow> int \<Rightarrow> MapClaims" where
  "session challenge iat nbf expiry =
     [''challenge'' \<mapsto> VString challenge, ''nonce'' \<mapsto> VInt 0,
      ''response'' \<mapsto> VString (challenge @ ''0''),
      ''iat'' \<mapsto> VInt64 iat, ''nbf'' \<mapsto> VInt64 nbf, ''exp'' \<mapsto> VInt64 expiry]"

definition unanswered :: "string \<Rightarrow> int \<Rightarrow> int \<Rightarrow> int \<Rightarrow> MapClaims" where
  "unanswered challenge iat nbf expiry =
     [''challenge'' \<mapsto> VString challenge, ''nonce'' \<mapsto> VInt 0,
      ''iat'' \<mapsto> VInt64 iat, ''nbf'' \<mapsto> VInt64 nbf, ''exp'' \<mapsto> VInt64 expiry]"

text \<open>Two tokens under the key of \<^verbatim>\<open>challenge_server\<close>, issued on \<^verbatim>\<open>monday\<close> at
  00:00:00 (1745193600 seconds after January 1, 1970) and good for 7 days: the one the pass
  endpoint mints for \<^verbatim>\<open>solved\<close>, and one whose claims have no \<^verbatim>\<open>response\<close>.\<close>

definition minted_token :: string where
  "minted_token =
     jwt_encode (priv challenge_server) (session monday_challenge 1745193600 1745193540 1745798400)"

definition unanswered_token :: string where
  "unanswered_token =
     jwt_encode (priv challenge_server) (unanswered monday_challenge 1745193600 1745193540 1745798400)"

text \<open>A world in which the second changes during a request: the clock reads one nanosecond
  before \<^verbatim>\<open>monday\<close>, 00:00:00, until the \<^verbatim>\<open>nbf\<close> claim is computed, and
  \<^verbatim>\<open>monday\<close>, 00:00:00, from the \<^verbatim>\<open>exp\<close> claim on.\<close>

definition tick :: world where
  "tick = (world_at (monday - 1))
     \<lparr> now := (\<lambda>site. if site = AtExp \<or> site = AtCookieExpires then monday else monday - 1) \<rparr>"

section \<open>Evaluating the sample instance\<close>

lemma sample_header [simp]:
  "Header_Get (Header (request hs fs cs)) k = (case map_of hs k of None \<Rightarrow> [] | Some v \<Rightarrow> v)"
  by (induction hs) (auto simp: request_def Header_Get_def split: option.splits)

lemma parse_loopback: "net_ParseIP ''127.0.0.1'' = Some [0,0,0,0,0,0,0,0,0,0,255,255,127,0,0,1]"
  by code_simp

lemma parse_garbage: "net_ParseIP ''localhost'' = None"
  by code_simp

lemma parse_v6_loopback: "net_ParseIP ''::1'' = Some [0,0,0,0,0,0,0,0,0,0,0,0,0,0,0,1]"
  by code_simp

lemma parseIPv4_v6_loopback: "parseIPv4 ''::1'' = None"
  by code_simp

lemma Atoi_Nil: "Atoi [] = None"
  by (simp add: Atoi_def)

lemma itoa_0: "itoa 0 = ''0''"
  by (simp add: itoa_def string_of_nat.simps digit_char_def)

lemma sample_form [simp]:
  "FormValue (request hs fs cs) k = (case map_of fs k of None \<Rightarrow> [] | Some v \<Rightarrow> v)"
  by (induction fs) (auto simp: request_def FormValue_def Header_Get_def split: option.splits)

lemma Atoi_0: "Atoi ''0'' = Some 0"
  by code_simp

lemma Atoi_420: "Atoi ''420'' = Some 420"
  by code_simp

lemma check_sample_default:
  "check sample (server [] dnsbl d) (request ((''X-Real-Ip'', ''127.0.0.1'') # hs) fs cs)
     = Ok (cr ''default/allow'' RuleAllow, Some (default_rule (policy (server [] dnsbl d))))"
  by (simp add: check_def sample_def parse_loopback server_def)

lemma check_sample_curl:
  "check sample (server [bot ''curl'' RuleDeny 4 True] dnsbl d) (request [(''X-Real-Ip'', ''127.0.0.1'')] fs cs)
     = Ok (\<lparr> crName = ''bot/curl'', crRule = RuleDeny \<rparr>, Some (bot ''curl'' RuleDeny 4 True))"
  by (simp add: check_def sample_def parse_loopback server_def bot_def constant_checker_def cr_def)

lemma check_sample_none:
  "check sample (server [] dnsbl d) (request [(''X-Real-Ip'', ''127.0.0.1'')] fs cs)
     = Ok (\<lparr> crName = ''default/allow'', crRule = RuleAllow \<rparr>, Some (default_rule (policy (server [] dnsbl d))))"
  by (simp add: check_sample_default cr_def)

lemma visitor_check:
  "check (token_ext claims) challenge_server visitor
     = Ok (\<lparr> crName = ''bot/all'', crRule = RuleChallenge \<rparr>, Some (bot ''all'' RuleChallenge 0 True))"
  by (simp add: token_ext_def challenge_server_def visitor_def check_def sample_def parse_loopback
        server_def bot_def constant_checker_def cr_def)

lemma visitor_action: "crRule \<lparr> crName = ''bot/all'', crRule = RuleChallenge \<rparr> = RuleChallenge"
  by simp

lemma visitor_free:
  "\<not> dnsbl_listed challenge_server (world_at 0) quiet (Header_Get (Header visitor) ''X-Real-Ip'')"
  by (simp add: dnsbl_listed_def challenge_server_def server_def)

lemma visitor_cookie:
  "Request_Cookie visitor (anubis_CookieName (token_ext claims))
     = Some \<lparr> cookieName = ''within.website-x-cmd-anubis-auth'', cookieValue = ''token'', cookieExpires = 0,
              cookieSameSite = SameSiteDefaultMode, cookieDomain = [],
              cookiePartitioned = False, cookiePath = [] \<rparr>"
  by (simp add: token_ext_def sample_def Request_Cookie_def visitor_def request_def)

lemma visitor_token:
  "CookieValid (token_ext claims) ck"
  "ParseWithClaims (token_ext claims) k t ''token'' = Some claims"
  "SHA256sum (token_ext claims) text = text"
  "\<not> randomJitter (world_at 0)"
  by (simp_all add: token_ext_def sample_def world_at_def)

lemma visitor_rule:
  "rule_Challenge (Some (bot ''all'' RuleChallenge 0 True))
     = Some \<lparr> Difficulty = 0, ReportAs = 0, Algorithm = AlgorithmFast \<rparr>"
  by (simp add: rule_Challenge_def bot_def)

lemma visitor_challenge:
  "challengeFor (token_ext claims) challenge_server visitor 0 (now (world_at 0) AtVerify) = week_challenge"
  by (simp add: week_challenge_def challengeFor_def challengeData_def token_ext_def world_at_def)

lemmas RFC3339_eval = RFC3339_def format_seconds_def format_date_def civil_from_days_def
  civil_from_doe_def civil_from_yoe_def civil_from_doy_def civil_from_mp_def pad2_def pad4_def
  string_of_nat.simps digit_char_def

lemma monday_rounds:
  "Round (monday - Second) (24 * 7 * Hour) = monday"
  "Round monday (24 * 7 * Hour) = monday"
  "Round (monday + 1 * Day) (24 * 7 * Hour) = monday"
  "Round (monday + 3 * Day) (24 * 7 * Hour) = monday"
  "Round (monday + 4 * Day) (24 * 7 * Hour) = monday + 7 * Day"
  "Round (thursday - Second) (24 * 7 * Hour) = monday"
  "Round thursday (24 * 7 * Hour) = monday"
  by (simp_all add: Round_def monday_def thursday_def Day_def Hour_def Minute_def Second_def)

lemma RFC3339_monday: "RFC3339 monday = ''2025-04-21T00:00:00Z''"
  by (simp add: monday_def Second_def RFC3339_eval)

lemma RFC3339_next_monday: "RFC3339 (monday + 7 * Day) = ''2025-04-28T00:00:00Z''"
  by (simp add: monday_def Day_def Hour_def Minute_def Second_def RFC3339_eval)

lemma RFC3339_thursday: "RFC3339 thursday = ''2025-04-24T00:00:00Z''"
  by (simp add: thursday_def Second_def RFC3339_eval)

lemma PassChallenge_solved_0:
  "snd (snd (PassChallenge sample (server [] False 0) (world_at 0) quiet (solved 0 0))) = Redirected ''/'' 302"
proof -
  have h1: "check sample (server [] False 0) (solved 0 0)
                 = Ok (cr ''default/allow'' RuleAllow, Some (default_rule (policy (server [] False 0))))"
    by (simp add: solved_def check_sample_default)
  have h2: "rule_Challenge (Some (default_rule (policy (server [] False 0))))
         = Some \<lparr> Difficulty = 0, ReportAs = 0, Algorithm = AlgorithmFast \<rparr>"
    by (simp add: rule_Challenge_def default_rule_def server_def)
  have h3: "Atoi (FormValue (solved 0 0) ''nonce'') = Some 0"
    by (simp add: solved_def Atoi_0)
  have h4: "FormValue (solved 0 0) ''elapsedTime'' = ''420''" "FormValue (solved 0 0) ''nonce'' = ''0''"
    "FormValue (solved 0 0) ''redir'' = ''/''"
    by (simp_all add: solved_def)
  have h5: "ParseFloat sample ''420'' = Some (Finite 420)"
    by (simp add: sample_def Atoi_420)
  have h6: "SignedString sample k claims = Some ''token''" for k claims
    by (simp add: sample_def)
  have resp: "FormValue (solved 0 0) ''response''
        = SHA256sum sample (challengeFor sample (server [] False 0) (solved 0 0) 0 (now (world_at 0) AtPassChallenge) @ itoa 0)"
    by (simp add: solved_def world_at_def itoa_0 sample_def challengeFor_def challengeData_def UserAgent_def)
  show ?thesis
    by (simp add: PassChallenge_def h1 h2 h3 h4 h5 h6 resp [symmetric] HasPrefix_def Atoi_0)
qed

text \<open>The sample JWT library: a token splits into the fields it was made of, and a
  number written by \<^verbatim>\<open>itoa\<close> is read back by \<^verbatim>\<open>Atoi\<close>.\<close>

lemma split_on_field:
  "sep \<notin> set a \<Longrightarrow> split_on sep (a @ sep # b) = a # split_on sep b"
  by (induction a) auto

lemma split_on_last: "sep \<notin> set a \<Longrightarrow> split_on sep a = [a]"
  by (induction a) auto

lemma digit_char_is_digit: "is_digit (digit_char d)"
  by (simp add: digit_char_def is_digit_def)

lemma digit_val_digit_char: "d < 10 \<Longrightarrow> digit_val (digit_char d) = d"
proof -
  assume "d < 10"
  then have "d = 0 \<or> d = 1 \<or> d = 2 \<or> d = 3 \<or> d = 4 \<or> d = 5 \<or> d = 6 \<or> d = 7 \<or> d = 8 \<or> d = 9"
    by arith
  then show ?thesis
    by (elim disjE) (simp_all add: digit_char_def digit_val_def)
qed

lemma string_of_nat_digits: "string_of_nat n \<noteq> [] \<and> list_all is_digit (string_of_nat n)"
proof (induction n rule: string_of_nat.induct)
  case (1 n)
  show ?case
  proof (cases "n < 10")
    case True
    then show ?thesis by (subst (1 2) string_of_nat.simps) (simp add: digit_char_is_digit)
  next
    case False
    with 1 show ?thesis by (subst (1 2) string_of_nat.simps) (simp add: digit_char_is_digit)
  qed
qed

lemma nat_of_digits_snoc: "nat_of_digits (ds @ [c]) = 10 * nat_of_digits ds + digit_val c"
  by (simp add: nat_of_digits_def)

lemma nat_of_digits_string_of_nat: "nat_of_digits (string_of_nat n) = n"
proof (induction n rule: string_of_nat.induct)
  case (1 n)
  show ?case
  proof (cases "n < 10")
    case True
    then show ?thesis
      by (subst string_of_nat.simps) (simp add: nat_of_digits_def digit_val_digit_char)
  next
    case False
    with 1 have "nat_of_digits (string_of_nat (n div 10)) = n div 10" by simp
    with False show ?thesis
      by (subst string_of_nat.simps) (simp add: nat_of_digits_snoc digit_val_digit_char)
  qed
qed

lemma is_digit_sign: "is_digit c \<Longrightarrow> c \<noteq> CHR ''-'' \<and> c \<noteq> CHR ''+'' \<and> c \<noteq> CHR ''|''"
  by (auto simp: is_digit_def)

lemma Atoi_itoa:
  assumes "- (2 ^ 63) \<le> i" "i < 2 ^ 63"
  shows "Atoi (itoa i) = Some i"
proof -
  have pos: "Atoi (string_of_nat n) = Some (int n)" if "int n < 2 ^ 63" for n
  proof -
    obtain c cs where s: "string_of_nat n = c # cs"
      using string_of_nat_digits [of n] by (cases "string_of_nat n") auto
    with string_of_nat_digits [of n] have "is_digit c" by simp
    then have c: "c \<noteq> CHR ''-''" "c \<noteq> CHR ''+''" using is_digit_sign by auto
    have "list_all is_digit (c # cs)" "nat_of_digits (c # cs) = n"
      using string_of_nat_digits [of n] nat_of_digits_string_of_nat [of n] s by simp_all
    with c that show ?thesis unfolding s by (simp add: Atoi_def)
  qed
  show ?thesis
  proof (cases "i < 0")
    case True
    let ?n = "nat (- i)"
    have d: "string_of_nat ?n \<noteq> []" "list_all is_digit (string_of_nat ?n)"
      "nat_of_digits (string_of_nat ?n) = ?n"
      using string_of_nat_digits [of ?n] nat_of_digits_string_of_nat [of ?n] by simp_all
    with True assms show ?thesis by (simp add: itoa_def Atoi_def)
  next
    case False
    with assms pos [of "nat i"] show ?thesis by (simp add: itoa_def)
  qed
qed

lemma itoa_no_bar: "CHR ''|'' \<notin> set (itoa i)"
proof -
  have "CHR ''|'' \<notin> set (string_of_nat n)" for n
    using string_of_nat_digits [of n] is_digit_sign by (auto simp: list_all_iff)
  then show ?thesis by (simp add: itoa_def)
qed

lemma jwt_read_value:
  "jwt_read (jwt_value (VString x)) = Some (VString x)"
  "- (2 ^ 63) \<le> n \<Longrightarrow> n < 2 ^ 63 \<Longrightarrow> jwt_read (jwt_value (VInt n)) = Some (VFloat64 (Finite (of_int n)))"
  "- (2 ^ 63) \<le> n \<Longrightarrow> n < 2 ^ 63 \<Longrightarrow> jwt_read (jwt_value (VInt64 n)) = Some (VFloat64 (Finite (of_int n)))"
  "jwt_read (jwt_value VNil) = Some VNil"
  by (simp_all add: jwt_read_def jwt_value_def Atoi_itoa)

lemma jwt_value_no_bar:
  "CHR ''|'' \<notin> set x \<Longrightarrow> CHR ''|'' \<notin> set (jwt_value (VString x))"
  "CHR ''|'' \<notin> set (jwt_value (VInt n))"
  "CHR ''|'' \<notin> set (jwt_value (VInt64 n))"
  "CHR ''|'' \<notin> set (jwt_value VNil)"
  by (simp_all add: jwt_value_def itoa_no_bar)

lemma jwt_decode_encode:
  assumes "\<forall>k \<in> set jwt_keys. CHR ''|'' \<notin> set (jwt_value (claim claims k))"
    and "CHR ''|'' \<notin> set (drop 32 key)"
  shows "jwt_decode (drop 32 key) (jwt_encode key claims)
       = map_option (\<lambda>vs. map_of (filter (\<lambda>kv. snd kv \<noteq> VNil) (zip jwt_keys vs)))
           (those (map (\<lambda>k. jwt_read (jwt_value (claim claims k))) jwt_keys))"
  using assms
  by (simp add: jwt_decode_def jwt_encode_def jwt_keys_def split_on_field split_on_last)

lemma monday_week: "RFC3339 (Round monday (24 * 7 * Hour)) = ''2025-04-21T00:00:00Z''"
  by (simp only: monday_rounds RFC3339_monday)

lemma monday_challenge_no_bar: "CHR ''|'' \<notin> set monday_challenge"
  using monday_week
  by (simp add: monday_challenge_def challengeFor_def challengeData_def sample_def bearer_def
        UserAgent_def challenge_server_def server_def Seed_def itoa_0)

lemma jwt_ext_sample [simp]:
  "SHA256sum jwt_ext = (\<lambda>text. text)" "ParseIP jwt_ext = net_ParseIP"
  "FormatRFC3339 jwt_ext = RFC3339" "anubis_CookieName jwt_ext = ''within.website-x-cmd-anubis-auth''"
  "CookieValid jwt_ext = (\<lambda>c. True)"
  "SignedString jwt_ext = (\<lambda>key claims. Some (jwt_encode key claims))"
  "ParseWithClaims jwt_ext = jwt_verify"
  "ParseFloat jwt_ext = ParseFloat sample"
  by (simp_all add: jwt_ext_def sample_def)

lemma challenge_server_check:
  "check jwt_ext challenge_server (request ((''X-Real-Ip'', ''127.0.0.1'') # hs) fs cs)
     = Ok (\<lparr> crName = ''bot/all'', crRule = RuleChallenge \<rparr>, Some (bot ''all'' RuleChallenge 0 True))"
  by (simp add: challenge_server_def check_def parse_loopback
        server_def bot_def constant_checker_def cr_def)

lemma challenge_server_challenge:
  "challengeFor jwt_ext challenge_server (request [(''X-Real-Ip'', ''127.0.0.1'')] fs cs) d t
     = challengeFor jwt_ext challenge_server (bearer []) d t"
  "challengeFor sample (server [] False d') (request [(''X-Real-Ip'', ''127.0.0.1'')] [] []) d t
     = challengeFor jwt_ext challenge_server (bearer []) d t"
  by (simp_all add: challengeFor_def challengeData_def UserAgent_def challenge_server_def server_def
        sample_def bearer_def)

lemma PassChallenge_jwt:
  "PassChallenge jwt_ext challenge_server w quiet (solved 0 (now w AtPassChallenge))
     = (quiet\<lparr> timeTaken := [Finite 420], challengesValidated := 1 \<rparr>,
        [SetCookie \<lparr> cookieName = ''within.website-x-cmd-anubis-auth'',
                     cookieValue = jwt_encode (priv challenge_server)
                        (session (challengeFor jwt_ext challenge_server (bearer []) 0 (now w AtPassChallenge))
                           (Unix (now w AtIat)) (Unix (now w AtNbf + (- 1) * Minute))
                           (Unix (now w AtExp + 24 * 7 * Hour))),
                     cookieExpires = now w AtCookieExpires + 24 * 7 * Hour,
                     cookieSameSite = SameSiteLaxMode,
                     cookieDomain = ''local.cetacean.club'', cookiePartitioned = True,
                     cookiePath = ''/'' \<rparr>],
        Redirected ''/'' 302)"
proof -
  let ?t = "now w AtPassChallenge"
  let ?r = "solved 0 ?t"
  have h1: "check jwt_ext challenge_server ?r
      = Ok (\<lparr> crName = ''bot/all'', crRule = RuleChallenge \<rparr>, Some (bot ''all'' RuleChallenge 0 True))"
    unfolding solved_def by (rule challenge_server_check)
  have h4: "FormValue ?r ''elapsedTime'' = ''420''" "FormValue ?r ''nonce'' = ''0''"
    "FormValue ?r ''redir'' = ''/''"
    by (simp_all add: solved_def)
  have h5: "ParseFloat sample ''420'' = Some (Finite 420)"
    by (simp add: sample_def Atoi_420)
  have c1: "challengeFor jwt_ext challenge_server ?r 0 ?t
      = challengeFor jwt_ext challenge_server (bearer []) 0 ?t"
    unfolding solved_def by (rule challenge_server_challenge(1))
  have resp: "FormValue ?r ''response''
        = challengeFor jwt_ext challenge_server (bearer []) 0 ?t @ ''0''"
    by (simp add: solved_def challenge_server_challenge(2))
  have o: "CookieDomain (opts challenge_server) = ''local.cetacean.club''"
    "CookiePartitioned (opts challenge_server) = True"
    by (simp_all add: challenge_server_def server_def)
  show ?thesis
    by (simp add: PassChallenge_def h1 h4 h5 c1 resp visitor_rule Atoi_0 itoa_0 HasPrefix_def
          session_def quiet_def o Let_def)
qed

lemma challenge_server_keys:
  "drop 32 (priv challenge_server) = pub challenge_server"
  "CHR ''|'' \<notin> set (pub challenge_server)"
  by (simp_all add: challenge_server_def server_def)

lemma jwt_decode_session:
  assumes bar: "CHR ''|'' \<notin> set ch"
    and range: "- (2 ^ 63) \<le> i" "i < 2 ^ 63" "- (2 ^ 63) \<le> b" "b < 2 ^ 63" "- (2 ^ 63) \<le> x" "x < 2 ^ 63"
  shows "jwt_decode (pub challenge_server) (jwt_encode (priv challenge_server) (session ch i b x))
       = Some (map_of (zip jwt_keys
            [VString ch, VFloat64 (Finite 0), VString (ch @ ''0''), VFloat64 (Finite (of_int i)),
             VFloat64 (Finite (of_int b)), VFloat64 (Finite (of_int x))]))"
proof -
  have fields: "\<forall>k \<in> set jwt_keys. CHR ''|'' \<notin> set (jwt_value (claim (session ch i b x) k))"
    using bar by (simp add: jwt_keys_def session_def claim_def jwt_value_no_bar)
  have "CHR ''|'' \<notin> set (drop 32 (priv challenge_server))"
    using challenge_server_keys by simp
  from jwt_decode_encode [OF fields this] range show ?thesis
    unfolding challenge_server_keys
    by (simp add: jwt_keys_def session_def claim_def jwt_read_value)
qed

lemma jwt_decode_unanswered:
  assumes bar: "CHR ''|'' \<notin> set ch"
    and range: "- (2 ^ 63) \<le> i" "i < 2 ^ 63" "- (2 ^ 63) \<le> b" "b < 2 ^ 63" "- (2 ^ 63) \<le> x" "x < 2 ^ 63"
  shows "jwt_decode (pub challenge_server) (jwt_encode (priv challenge_server) (unanswered ch i b x))
       = Some (map_of
            [(''challenge'', VString ch), (''nonce'', VFloat64 (Finite 0)), (''iat'', VFloat64 (Finite (of_int i))),
             (''nbf'', VFloat64 (Finite (of_int b))), (''exp'', VFloat64 (Finite (of_int x)))])"
proof -
  have fields: "\<forall>k \<in> set jwt_keys. CHR ''|'' \<notin> set (jwt_value (claim (unanswered ch i b x) k))"
    using bar by (simp add: jwt_keys_def unanswered_def claim_def jwt_value_no_bar)
  have "CHR ''|'' \<notin> set (drop 32 (priv challenge_server))"
    using challenge_server_keys by simp
  from jwt_decode_encode [OF fields this] range show ?thesis
    unfolding challenge_server_keys
    by (simp add: jwt_keys_def unanswered_def claim_def jwt_read_value)
qed

lemma monday_Unix:
  "Unix monday = 1745193600" "Unix (monday + (- 1) * Minute) = 1745193540"
  "Unix (monday + 24 * 7 * Hour) = 1745798400" "Unix (monday + Day) = 1745280000"
  by (simp_all add: Unix_def monday_def Day_def Hour_def Minute_def Second_def)

lemma world_at_now: "now (world_at t) site = t" "\<not> randomJitter (world_at t)"
  by (simp_all add: world_at_def)

lemma jwt_verify_minted:
  "jwt_verify (pub challenge_server) (monday + Day) minted_token
     = Some (map_of (zip jwt_keys
            [VString monday_challenge, VFloat64 (Finite 0), VString (monday_challenge @ ''0''),
             VFloat64 (Finite 1745193600), VFloat64 (Finite 1745193540), VFloat64 (Finite 1745798400)]))"
  unfolding jwt_verify_def minted_token_def
  by (subst jwt_decode_session) (simp_all add: monday_challenge_no_bar jwt_keys_def claim_def monday_Unix)

lemma jwt_verify_unanswered:
  "jwt_verify (pub challenge_server) monday unanswered_token
     = Some (map_of
            [(''challenge'', VString monday_challenge), (''nonce'', VFloat64 (Finite 0)),
             (''iat'', VFloat64 (Finite 1745193600)), (''nbf'', VFloat64 (Finite 1745193540)),
             (''exp'', VFloat64 (Finite 1745798400))])"
  unfolding jwt_verify_def unanswered_token_def
  by (subst jwt_decode_unanswered) (simp_all add: monday_challenge_no_bar claim_def monday_Unix)

lemma bearer_check:
  "check jwt_ext challenge_server (bearer token)
     = Ok (\<lparr> crName = ''bot/all'', crRule = RuleChallenge \<rparr>, Some (bot ''all'' RuleChallenge 0 True))"
  unfolding bearer_def by (rule challenge_server_check)

lemma bearer_free:
  "\<not> dnsbl_listed challenge_server w quiet ip"
  by (simp add: dnsbl_listed_def challenge_server_def server_def)

lemma bearer_cookie:
  "Request_Cookie (bearer token) (anubis_CookieName jwt_ext)
     = Some \<lparr> cookieName = ''within.website-x-cmd-anubis-auth'', cookieValue = token, cookieExpires = 0,
              cookieSameSite = SameSiteDefaultMode, cookieDomain = [],
              cookiePartitioned = False, cookiePath = [] \<rparr>"
  by (simp add: Request_Cookie_def bearer_def request_def)

lemma tuesday_rounds: "Round (monday + Day) (24 * 7 * Hour) = monday"
  using monday_rounds(3) by simp

lemma bearer_challenge:
  "challengeFor jwt_ext challenge_server (bearer token) 0 monday = monday_challenge"
  "challengeFor jwt_ext challenge_server (bearer token) 0 (monday + Day) = monday_challenge"
proof -
  have "challengeData jwt_ext challenge_server (bearer token) 0 t
      = challengeData sample challenge_server (bearer []) 0 monday"
    if "Round t (24 * 7 * Hour) = Round monday (24 * 7 * Hour)" for t
    using that by (simp add: challengeData_def sample_def bearer_def UserAgent_def)
  from this [of monday] this [of "monday + Day"]
  show "challengeFor jwt_ext challenge_server (bearer token) 0 monday = monday_challenge"
    "challengeFor jwt_ext challenge_server (bearer token) 0 (monday + Day) = monday_challenge"
    by (simp_all only: monday_rounds tuesday_rounds monday_challenge_def challengeFor_def jwt_ext_sample sample_def
          ext.simps)
qed

lemma tick_now:
  "now tick AtPassChallenge = monday - 1" "now tick AtIat = monday - 1" "now tick AtNbf = monday - 1"
  "now tick AtExp = monday" "now tick AtCookieExpires = monday"
  by (simp_all add: tick_def)

lemma tick_challenge:
  "challengeFor jwt_ext challenge_server (bearer []) 0 (monday - 1) = monday_challenge"
proof -
  have "Round (monday - 1) (24 * 7 * Hour) = Round monday (24 * 7 * Hour)"
    by (simp add: Round_def monday_def Hour_def Minute_def Second_def)
  then have "challengeData jwt_ext challenge_server (bearer []) 0 (monday - 1)
      = challengeData sample challenge_server (bearer []) 0 monday"
    by (simp add: challengeData_def sample_def)
  then show ?thesis by (simp add: monday_challenge_def challengeFor_def sample_def)
qed

lemma tick_Unix:
  "Unix (monday - 1) = 1745193599" "Unix (monday - 1 + (- 1) * Minute) = 1745193539"
  "Unix (monday + 24 * 7 * Hour) = 1745798400"
  by (simp_all add: Unix_def monday_def Hour_def Minute_def Second_def)


lemma PassChallenge_monday:
  "PassChallenge jwt_ext challenge_server (world_at monday) quiet (solved 0 monday)
     = (quiet\<lparr> timeTaken := [Finite 420], challengesValidated := 1 \<rparr>,
        [SetCookie \<lparr> cookieName = ''within.website-x-cmd-anubis-auth'', cookieValue = minted_token,
                     cookieExpires = monday + 7 * Day,
                     cookieSameSite = SameSiteLaxMode,
                     cookieDomain = ''local.cetacean.club'', cookiePartitioned = True,
                     cookiePath = ''/'' \<rparr>],
        Redirected ''/'' 302)"
proof -
  have "PassChallenge jwt_ext challenge_server (world_at monday) quiet
          (solved 0 (now (world_at monday) AtPassChallenge))
     = (quiet\<lparr> timeTaken := [Finite 420], challengesValidated := 1 \<rparr>,
        [SetCookie \<lparr> cookieName = ''within.website-x-cmd-anubis-auth'',
                     cookieValue = jwt_encode (priv challenge_server)
                        (session (challengeFor jwt_ext challenge_server (bearer []) 0 (now (world_at monday) AtPassChallenge))
                           (Unix (now (world_at monday) AtIat)) (Unix (now (world_at monday) AtNbf + (- 1) * Minute))
                           (Unix (now (world_at monday) AtExp + 24 * 7 * Hour))),
                     cookieExpires = now (world_at monday) AtCookieExpires + 24 * 7 * Hour,
                     cookieSameSite = SameSiteLaxMode,
                     cookieDomain = ''local.cetacean.club'', cookiePartitioned = True,
                     cookiePath = ''/'' \<rparr>],
        Redirected ''/'' 302)"
    by (rule PassChallenge_jwt)
  then show ?thesis
    unfolding world_at_now bearer_challenge monday_Unix minted_token_def by (simp add: Day_def)
qed


section \<open>Policy evaluation\<close>

lemma check_loop_no_match:
  "\<forall>b \<in> set bots. \<exists>c. Rules b = Some c \<and> Check c r = Inr False \<Longrightarrow> check_loop bots r = Ok None"
  by (induction bots) auto

text \<open>C5: for a request whose \<^verbatim>\<open>X-Real-Ip\<close> header holds a parsable IP and for which no
  rule of the policy matches (every rule's predicate answers "no match"), \<^verbatim>\<open>check\<close>
  returns the result named \<^verbatim>\<open>default/allow\<close> with action allow and a synthetic rule
  whose challenge parameters carry the policy's default difficulty as \<^verbatim>\<open>Difficulty\<close> and as
  \<^verbatim>\<open>ReportAs\<close>, with the fast algorithm; this for every default difficulty, 1 to 9
  included.\<close>

theorem check_default_allow:
  assumes ip: "Header_Get (Header r) ''X-Real-Ip'' \<noteq> []"
      "ParseIP e (Header_Get (Header r) ''X-Real-Ip'') = Some addr"
    and nomatch: "\<forall>b \<in> set (Bots (policy s)). \<exists>c. Rules b = Some c \<and> Check c r = Inr False"
  shows "check e s r =
           Ok (\<lparr> crName = ''default/allow'', crRule = RuleAllow \<rparr>,
               Some \<lparr> Name = [], Action = RuleOther [],
                      Challenge = Some \<lparr> Difficulty = DefaultDifficulty (policy s),
                                         ReportAs = DefaultDifficulty (policy s),
                                         Algorithm = AlgorithmFast \<rparr>,
                      Rules = None \<rparr>)"
  using ip check_loop_no_match [OF nomatch]
  by (simp add: check_def cr_def default_rule_def)

theorem check_default_allow_witness:
  "check sample (server [bot ''curl'' RuleDeny 4 False] False 7)
       (request [(''X-Real-Ip'', ''127.0.0.1'')] [] []) =
     Ok (\<lparr> crName = ''default/allow'', crRule = RuleAllow \<rparr>,
         Some \<lparr> Name = [], Action = RuleOther [],
                Challenge = Some \<lparr> Difficulty = 7, ReportAs = 7, Algorithm = AlgorithmFast \<rparr>,
                Rules = None \<rparr>)"
proof -
  let ?r = "request [(''X-Real-Ip'', ''127.0.0.1'')] [] []"
  let ?s = "server [bot ''curl'' RuleDeny 4 False] False 7"
  have h1: "Header_Get (Header ?r) ''X-Real-Ip'' \<noteq> []" by simp
  have h2: "ParseIP sample (Header_Get (Header ?r) ''X-Real-Ip'')
              = Some [0,0,0,0,0,0,0,0,0,0,255,255,127,0,0,1]"
    by (simp add: sample_def parse_loopback)
  have h3: "\<forall>b \<in> set (Bots (policy ?s)). \<exists>c. Rules b = Some c \<and> Check c ?r = Inr False"
    by (simp add: server_def bot_def constant_checker_def)
  show ?thesis using check_default_allow [OF h1 h2 h3] by (simp add: server_def)
qed

lemma check_loop_first_match:
  assumes "\<forall>p \<in> set pre. \<exists>c. Rules p = Some c \<and> Check c r = Inr False"
    and "Rules b = Some c" and "Check c r = Inr True"
  shows "check_loop (pre @ b # post) r = Ok (Some (cr (''bot/'' @ Name b) (Action b), b))"
  using assms by (induction pre) auto

lemma check_loop_decided:
  "check_loop bots r \<noteq> Ok None \<Longrightarrow> check_loop (bots @ extra) r = check_loop bots r"
  by (induction bots) (auto split: option.splits sum.splits)

lemma check_loop_match_decided:
  "\<exists>b \<in> set bots. \<exists>c. Rules b = Some c \<and> Check c r = Inr True \<Longrightarrow> check_loop bots r \<noteq> Ok None"
  by (induction bots) (auto split: option.splits sum.splits)

lemma check_loop_error:
  "check_loop bots r = Error err \<Longrightarrow> \<not> is_misconfiguration err"
  by (induction bots) (auto split: option.splits sum.splits if_splits)


text \<open>C4, as amended: for a request whose \<^verbatim>\<open>X-Real-Ip\<close> header holds a parsable IP,
  \<^verbatim>\<open>check\<close> returns the first rule in declaration order whose predicate matches, every
  earlier predicate having answered "no match"; and for every request, once a rule of the
  list matches, rules appended to the list leave the result of \<^verbatim>\<open>check\<close> unchanged.\<close>

theorem check_first_match:
  "(Header_Get (Header r) ''X-Real-Ip'' \<noteq> [] \<and> ParseIP e (Header_Get (Header r) ''X-Real-Ip'') \<noteq> None
      \<and> Bots (policy s) = pre @ b # post
      \<and> (\<forall>p \<in> set pre. \<exists>c. Rules p = Some c \<and> Check c r = Inr False)
      \<and> (\<exists>c. Rules b = Some c \<and> Check c r = Inr True)
    \<longrightarrow> check e s r = Ok (\<lparr> crName = ''bot/'' @ Name b, crRule = Action b \<rparr>, Some b))
   \<and> ((\<exists>b \<in> set (Bots (policy s)). \<exists>c. Rules b = Some c \<and> Check c r = Inr True)
    \<longrightarrow> check e (s\<lparr> policy := (policy s)\<lparr> Bots := Bots (policy s) @ extra \<rparr> \<rparr>) r = check e s r)"
proof (intro conjI impI)
  assume a: "Header_Get (Header r) ''X-Real-Ip'' \<noteq> [] \<and> ParseIP e (Header_Get (Header r) ''X-Real-Ip'') \<noteq> None
      \<and> Bots (policy s) = pre @ b # post
      \<and> (\<forall>p \<in> set pre. \<exists>c. Rules p = Some c \<and> Check c r = Inr False)
      \<and> (\<exists>c. Rules b = Some c \<and> Check c r = Inr True)"
  then obtain c where c: "Rules b = Some c" "Check c r = Inr True" by blast
  from a have "check_loop (Bots (policy s)) r = Ok (Some (cr (''bot/'' @ Name b) (Action b), b))"
    using check_loop_first_match [OF _ c, of pre post] by simp
  with a show "check e s r = Ok (\<lparr> crName = ''bot/'' @ Name b, crRule = Action b \<rparr>, Some b)"
    by (auto simp: check_def cr_def)
next
  assume "\<exists>b \<in> set (Bots (policy s)). \<exists>c. Rules b = Some c \<and> Check c r = Inr True"
  then have "check_loop (Bots (policy s) @ extra) r = check_loop (Bots (policy s)) r"
    by (intro check_loop_decided check_loop_match_decided)
  moreover have "check_loop (Bots (policy s)) r \<noteq> Ok None"
    using \<open>\<exists>b \<in> set (Bots (policy s)). \<exists>c. Rules b = Some c \<and> Check c r = Inr True\<close>
    by (rule check_loop_match_decided)
  ultimately show "check e (s\<lparr> policy := (policy s)\<lparr> Bots := Bots (policy s) @ extra \<rparr> \<rparr>) r = check e s r"
    by (auto simp: check_def split: option.splits result.splits)
qed

theorem check_first_match_witness:
  "check sample (server [bot ''a'' RuleDeny 4 False, bot ''b'' RuleChallenge 5 True, bot ''c'' RuleAllow 6 True] False 4)
       (request [(''X-Real-Ip'', ''127.0.0.1'')] [] [])
     = Ok (\<lparr> crName = ''bot/b'', crRule = RuleChallenge \<rparr>, Some (bot ''b'' RuleChallenge 5 True))
   \<and> check sample (server ([bot ''a'' RuleDeny 4 False, bot ''b'' RuleChallenge 5 True] @ [bot ''c'' RuleAllow 6 True]) False 4)
       (request [(''X-Real-Ip'', ''127.0.0.1'')] [] [])
     = check sample (server [bot ''a'' RuleDeny 4 False, bot ''b'' RuleChallenge 5 True] False 4)
       (request [(''X-Real-Ip'', ''127.0.0.1'')] [] [])"
proof -
  let ?r = "request [(''X-Real-Ip'', ''127.0.0.1'')] [] []"
  let ?a = "bot ''a'' RuleDeny 4 False" and ?b = "bot ''b'' RuleChallenge 5 True"
  let ?c = "bot ''c'' RuleAllow 6 True"
  have ip: "Header_Get (Header ?r) ''X-Real-Ip'' \<noteq> []"
    "ParseIP sample (Header_Get (Header ?r) ''X-Real-Ip'') \<noteq> None"
    by (simp_all add: sample_def parse_loopback)
  have m: "\<exists>c. Rules ?b = Some c \<and> Check c ?r = Inr True"
    by (simp add: bot_def constant_checker_def)
  have n: "\<forall>p \<in> set [?a]. \<exists>c. Rules p = Some c \<and> Check c ?r = Inr False"
    by (simp add: bot_def constant_checker_def)
  have 1: "check sample (server [?a, ?b, ?c] False 4) ?r
             = Ok (\<lparr> crName = ''bot/b'', crRule = RuleChallenge \<rparr>, Some ?b)"
    using check_first_match [of ?r sample "server [?a, ?b, ?c] False 4" "[?a]" ?b "[?c]" "[]"] ip m n
    by (simp add: server_def) (simp add: bot_def)
  have 2: "check sample (server ([?a, ?b] @ [?c]) False 4) ?r = check sample (server [?a, ?b] False 4) ?r"
    using check_first_match [of ?r sample "server [?a, ?b] False 4" "[]" ?a "[]" "[?c]"] m
    by (simp add: server_def)
  from 1 2 show ?thesis by simp
qed

text \<open>As stated for every request, C4 fails: a request without \<^verbatim>\<open>X-Real-Ip\<close> gets
  an error from \<^verbatim>\<open>check\<close>, whatever rule matches it.\<close>

theorem check_first_match_counterexample:
  "Rules (bot ''b'' RuleChallenge 5 True) = Some (constant_checker True)
   \<and> Check (constant_checker True) (request [] [] []) = Inr True
   \<and> check sample (server [bot ''b'' RuleChallenge 5 True] False 4) (request [] [] []) = Error XRealIpNotSet"
  by (simp add: bot_def constant_checker_def check_def)

text \<open>C6, as amended: \<^verbatim>\<open>check\<close> fails with a misconfiguration error exactly when the
  \<^verbatim>\<open>X-Real-Ip\<close> header is absent (or empty) or \<^verbatim>\<open>net.ParseIP\<close> rejects it; the result
  is then the same whatever the policy holds (no rule predicate is consulted), and the gating
  handler answers 500 with the diagnostic page.\<close>

theorem check_misconfiguration:
  "((\<exists>err. check e s r = Error err \<and> is_misconfiguration err)
      \<longleftrightarrow> (Header_Get (Header r) ''X-Real-Ip'' = []
           \<or> ParseIP e (Header_Get (Header r) ''X-Real-Ip'') = None))
   \<and> (Header_Get (Header r) ''X-Real-Ip'' = [] \<or> ParseIP e (Header_Get (Header r) ''X-Real-Ip'') = None
      \<longrightarrow> (\<forall>s'. check e s' r = check e s r)
          \<and> MaybeReverseProxy e s w st r
              = (st, [], Rendered 500 (ErrorPage (misconfigured ''\"maybeReverseProxy\"'')
                                                (WebmasterEmail (opts s)))))"
proof -
  let ?host = "Header_Get (Header r) ''X-Real-Ip''"
  have bad: "\<exists>err. (\<forall>s'. check e s' r = Error err) \<and> is_misconfiguration err"
    if "?host = [] \<or> ParseIP e ?host = None"
  proof (cases "?host = []")
    case True
    then have "\<forall>s'. check e s' r = Error XRealIpNotSet" by (simp add: check_def)
    then show ?thesis by (intro exI [of _ XRealIpNotSet]) simp
  next
    case False
    with that have "\<forall>s'. check e s' r = Error (NotAnIPAddress ?host)" by (simp add: check_def)
    then show ?thesis by (intro exI [of _ "NotAnIPAddress ?host"]) simp
  qed
  have good: "\<not> (\<exists>err. check e s r = Error err \<and> is_misconfiguration err)"
    if "?host \<noteq> []" "ParseIP e ?host \<noteq> None"
    using that check_loop_error [of "Bots (policy s)" r]
    by (auto simp: check_def split: result.splits option.splits)
  have iff: "(\<exists>err. check e s r = Error err \<and> is_misconfiguration err)
      \<longleftrightarrow> (?host = [] \<or> ParseIP e ?host = None)"
    using bad good by blast
  have rest: "(\<forall>s'. check e s' r = check e s r)
          \<and> MaybeReverseProxy e s w st r
              = (st, [], Rendered 500 (ErrorPage (misconfigured ''\"maybeReverseProxy\"'')
                                                (WebmasterEmail (opts s))))"
    if h: "?host = [] \<or> ParseIP e ?host = None"
  proof -
    from bad [OF h] obtain err where err: "\<forall>s'. check e s' r = Error err" by blast
    then have "check e s r = Error err" by blast
    then have "MaybeReverseProxy e s w st r
              = (st, [], Rendered 500 (ErrorPage (misconfigured ''\"maybeReverseProxy\"'')
                                                (WebmasterEmail (opts s))))"
      by (simp add: MaybeReverseProxy_def)
    with err show ?thesis by simp
  qed
  from iff rest show ?thesis by blast
qed

theorem check_misconfiguration_witness:
  "check sample (server [bot ''b'' RuleAllow 4 True] False 4) (request [(''X-Real-Ip'', ''localhost'')] [] [])
     = Error (NotAnIPAddress ''localhost'')
   \<and> MaybeReverseProxy sample (server [bot ''b'' RuleAllow 4 True] False 4) (world_at 0) quiet
        (request [(''X-Real-Ip'', ''localhost'')] [] [])
     = (quiet, [], Rendered 500 (ErrorPage (misconfigured ''\"maybeReverseProxy\"'') []))"
proof -
  let ?r = "request [(''X-Real-Ip'', ''localhost'')] [] []"
  let ?s = "server [bot ''b'' RuleAllow 4 True] False 4"
  have h: "Header_Get (Header ?r) ''X-Real-Ip'' = [] \<or> ParseIP sample (Header_Get (Header ?r) ''X-Real-Ip'') = None"
    by (simp add: sample_def parse_garbage)
  have 1: "check sample ?s ?r = Error (NotAnIPAddress ''localhost'')"
    by (simp add: check_def sample_def parse_garbage)
  from check_misconfiguration [of sample ?s ?r "world_at 0" quiet] h
  have "MaybeReverseProxy sample ?s (world_at 0) quiet ?r
     = (quiet, [], Rendered 500 (ErrorPage (misconfigured ''\"maybeReverseProxy\"'') (WebmasterEmail (opts ?s))))"
    by blast
  with 1 show ?thesis by (simp add: server_def)
qed

text \<open>As stated with "a valid IPv4 address", C6 fails: \<^verbatim>\<open>net.ParseIP\<close> accepts IPv6
  too, so a request from \<^verbatim>\<open>::1\<close> is evaluated without error.\<close>

theorem check_misconfiguration_counterexample:
  "parseIPv4 ''::1'' = None
   \<and> check sample (server [] False 4) (request [(''X-Real-Ip'', ''::1'')] [] [])
     = Ok (\<lparr> crName = ''default/allow'', crRule = RuleAllow \<rparr>, Some (default_rule (policy (server [] False 4))))"
  by (simp add: parseIPv4_v6_loopback check_def sample_def parse_v6_loopback server_def cr_def)

section \<open>The pass endpoint\<close>

text \<open>C1: for a request to the pass endpoint whose \<^verbatim>\<open>nonce\<close> and \<^verbatim>\<open>elapsedTime\<close>
  parse (policy evaluation having chosen a rule with challenge parameters of difficulty
  \<^verbatim>\<open>D\<close>, not negative, and the signing of the token succeeding), the answer is 302, with the
  session cookie set, exactly when the submitted response equals the hex digest of the
  recomputed challenge followed by the decimal nonce and begins with \<^verbatim>\<open>D\<close> characters
  \<^verbatim>\<open>0\<close>; when either check fails the answer is 403 and the failure counter goes up by
  one.  In particular at \<^verbatim>\<open>D = 4\<close>, nonce 0, a response that is the right digest and lacks
  four leading zeros gets 403.\<close>

theorem PassChallenge_valid:
  assumes chk: "check e s r = Ok (res, rule)"
    and ch: "rule_Challenge rule = Some c"
    and d: "0 \<le> Difficulty c"
    and nonce: "Atoi (FormValue r ''nonce'') = Some nonce"
    and el: "FormValue r ''elapsedTime'' \<noteq> []" "ParseFloat e (FormValue r ''elapsedTime'') = Some elapsed"
    and sign: "\<forall>claims. SignedString e (priv s) claims \<noteq> None"
  shows "case PassChallenge e s w st r of
           (st', effects, out) \<Rightarrow>
             (let challenge = challengeFor e s r (Difficulty c) (now w AtPassChallenge);
                  response = FormValue r ''response'';
                  valid = (response = SHA256sum e (challenge @ itoa nonce)
                           \<and> HasPrefix response (replicate (nat (Difficulty c)) CHR ''0''))
              in (status out = Some 302 \<longleftrightarrow> valid)
               \<and> (valid \<longrightarrow> out = Redirected (FormValue r ''redir'') 302
                     \<and> (\<exists>ck. effects = [SetCookie ck])
                     \<and> failedValidations st' = failedValidations st)
               \<and> (\<not> valid \<longrightarrow> status out = Some 403 \<and> effects = [ClearCookie]
                     \<and> failedValidations st' = failedValidations st + 1)
               \<and> (Difficulty c = 4 \<and> nonce = 0 \<and> response = SHA256sum e (challenge @ ''0'')
                     \<and> \<not> HasPrefix response ''0000'' \<longrightarrow> status out = Some 403))"
proof -
  from nonce have n0: "FormValue r ''nonce'' \<noteq> []" using Atoi_Nil by auto
  have r4: "replicate (nat 4) CHR ''0'' = ''0000''" by (simp add: numeral_eq_Suc)
  from sign obtain tok where "SignedString e (priv s)
     [''challenge'' \<mapsto> VString (challengeFor e s r (Difficulty c) (now w AtPassChallenge)),
      ''nonce'' \<mapsto> VInt nonce,
      ''response'' \<mapsto> VString (FormValue r ''response''),
      ''iat'' \<mapsto> VInt64 (Unix (now w AtIat)),
      ''nbf'' \<mapsto> VInt64 (Unix (now w AtNbf + (- 1) * Minute)),
      ''exp'' \<mapsto> VInt64 (Unix (now w AtExp + 24 * 7 * Hour))] = Some tok"
    by (metis option.exhaust)
  then show ?thesis
    using chk ch d nonce el n0 r4
    by (auto simp: PassChallenge_def Let_def invalid_response_def itoa_0)
qed

theorem PassChallenge_valid_witness:
  "status (snd (snd (PassChallenge sample (server [] False 4) (world_at 0) quiet (solved 4 0)))) = Some 403
   \<and> status (snd (snd (PassChallenge sample (server [] False 0) (world_at 0) quiet (solved 0 0)))) = Some 302"
proof -
  have h1: "check sample (server [] False d) (solved d 0)
                 = Ok (cr ''default/allow'' RuleAllow, Some (default_rule (policy (server [] False d))))" for d
    by (simp add: solved_def check_sample_default)
  have h2: "rule_Challenge (Some (default_rule (policy (server [] False d))))
         = Some \<lparr> Difficulty = d, ReportAs = d, Algorithm = AlgorithmFast \<rparr>" for d
    by (simp add: rule_Challenge_def default_rule_def server_def)
  have h3: "Atoi (FormValue (solved d 0) ''nonce'') = Some 0" for d
    by (simp add: solved_def Atoi_0)
  have h4: "FormValue (solved d 0) ''elapsedTime'' \<noteq> []" for d
    by (simp add: solved_def)
  have h5: "ParseFloat sample (FormValue (solved d 0) ''elapsedTime'') = Some (Finite 420)" for d
    by (simp add: solved_def sample_def Atoi_420)
  have h6: "\<forall>claims. SignedString sample (priv (server [] False d)) claims \<noteq> None" for d
    by (simp add: sample_def)
  have resp: "FormValue (solved d 0) ''response''
        = SHA256sum sample (challengeFor sample (server [] False d) (solved d 0) d (now (world_at 0) AtPassChallenge) @ itoa 0)"
    for d
    by (simp add: solved_def world_at_def itoa_0 sample_def challengeFor_def challengeData_def UserAgent_def)
  have nopre: "\<not> HasPrefix (FormValue (solved 4 0) ''response'') (replicate (nat 4) CHR ''0'')"
    by (simp add: solved_def HasPrefix_def challengeFor_def challengeData_def sample_def numeral_eq_Suc)
  have pre: "HasPrefix (FormValue (solved 0 0) ''response'') (replicate (nat 0) CHR ''0'')"
    by (simp add: HasPrefix_def)
  have 1: "status (snd (snd (PassChallenge sample (server [] False 4) (world_at 0) quiet (solved 4 0)))) = Some 403"
    using PassChallenge_valid [OF h1 h2 _ h3 h4 h5 h6, of 4 "world_at 0" quiet] nopre
    by (auto simp: Let_def split: prod.splits)
  have 2: "status (snd (snd (PassChallenge sample (server [] False 0) (world_at 0) quiet (solved 0 0)))) = Some 302"
    using PassChallenge_valid [OF h1 h2 _ h3 h4 h5 h6, of 0 "world_at 0" quiet]
      pre resp [of 0]
    by (auto simp: Let_def split: prod.splits)
  from 1 2 show ?thesis by simp
qed

lemma PassChallenge_signs:
  assumes "PassChallenge e s w st r = (st', effects, Redirected url code)"
  shows "\<exists>res rule c nonce token.
           check e s r = Ok (res, rule) \<and> rule_Challenge rule = Some c
         \<and> Atoi (FormValue r ''nonce'') = Some nonce
         \<and> SignedString e (priv s)
              [''challenge'' \<mapsto> VString (challengeFor e s r (Difficulty c) (now w AtPassChallenge)),
               ''nonce'' \<mapsto> VInt nonce,
               ''response'' \<mapsto> VString (FormValue r ''response''),
               ''iat'' \<mapsto> VInt64 (Unix (now w AtIat)),
               ''nbf'' \<mapsto> VInt64 (Unix (now w AtNbf + (- 1) * Minute)),
               ''exp'' \<mapsto> VInt64 (Unix (now w AtExp + 24 * 7 * Hour))] = Some token
         \<and> effects =
              [SetCookie \<lparr> cookieName = anubis_CookieName e, cookieValue = token,
                           cookieExpires = now w AtCookieExpires + 24 * 7 * Hour,
                           cookieSameSite = SameSiteLaxMode,
                           cookieDomain = CookieDomain (opts s),
                           cookiePartitioned = CookiePartitioned (opts s),
                           cookiePath = ''/'' \<rparr>]"
  using assms unfolding PassChallenge_def Let_def invalid_response_def
  by (auto split: result.splits option.splits if_splits)

lemma Unix_plus: "Unix (t + k * Second) = Unix t + k"
  by (simp add: Unix_def Second_def)

lemma Unix_eq_iff: "Unix t + k = Unix t' + k \<longleftrightarrow> t div Second = t' div Second"
  by (simp add: Unix_def)

text \<open>C8, as amended: a token minted by a successful pass is what \<^verbatim>\<open>SignedString\<close>
  makes, under the server's private key, of the claims \<^verbatim>\<open>challenge\<close>, \<^verbatim>\<open>nonce\<close>,
  \<^verbatim>\<open>response\<close>, \<^verbatim>\<open>iat\<close>, \<^verbatim>\<open>nbf\<close> and \<^verbatim>\<open>exp\<close>, the last three taken
  from three successive readings of the clock: \<^verbatim>\<open>iat\<close> is the first reading in seconds,
  \<^verbatim>\<open>nbf\<close> the second reading less 60 seconds, \<^verbatim>\<open>exp\<close> the third reading plus 7
  days.  So \<^verbatim>\<open>nbf\<close> = \<^verbatim>\<open>iat\<close> - 60 seconds exactly when the second reading falls in
  the same second as the first, and \<^verbatim>\<open>exp\<close> = \<^verbatim>\<open>iat\<close> + 7 days exactly when the
  third does.  The cookie that carries the token expires 7 days after a further reading, with
  \<^verbatim>\<open>SameSite=Lax\<close>, \<^verbatim>\<open>Path=/\<close> and the \<^verbatim>\<open>Domain\<close> and \<^verbatim>\<open>Partitioned\<close> of
  the server's options.\<close>

theorem PassChallenge_mint:
  assumes minted: "PassChallenge e s w st r = (st', effects, Redirected url code)"
  shows "\<exists>res rule c nonce token iat nbf expiry.
           check e s r = Ok (res, rule) \<and> rule_Challenge rule = Some c
         \<and> Atoi (FormValue r ''nonce'') = Some nonce
         \<and> iat = Unix (now w AtIat)
         \<and> nbf = Unix (now w AtNbf) - 60
         \<and> expiry = Unix (now w AtExp) + 7 * 24 * 60 * 60
         \<and> SignedString e (priv s)
              [''challenge'' \<mapsto> VString (challengeFor e s r (Difficulty c) (now w AtPassChallenge)),
               ''nonce'' \<mapsto> VInt nonce,
               ''response'' \<mapsto> VString (FormValue r ''response''),
               ''iat'' \<mapsto> VInt64 iat,
               ''nbf'' \<mapsto> VInt64 nbf,
               ''exp'' \<mapsto> VInt64 expiry] = Some token
         \<and> effects =
              [SetCookie \<lparr> cookieName = anubis_CookieName e, cookieValue = token,
                           cookieExpires = now w AtCookieExpires + 7 * 24 * Hour,
                           cookieSameSite = SameSiteLaxMode,
                           cookieDomain = CookieDomain (opts s),
                           cookiePartitioned = CookiePartitioned (opts s),
                           cookiePath = ''/'' \<rparr>]
         \<and> (nbf = iat - 60 \<longleftrightarrow> now w AtNbf div Second = now w AtIat div Second)
         \<and> (expiry = iat + 7 * 24 * 60 * 60 \<longleftrightarrow> now w AtExp div Second = now w AtIat div Second)"
proof -
  have nbf: "Unix (now w AtNbf + (- 1) * Minute) = Unix (now w AtNbf) - 60"
    using Unix_plus [of "now w AtNbf" "- 60"] by (simp add: Minute_def)
  have expiry: "Unix (now w AtExp + 24 * 7 * Hour) = Unix (now w AtExp) + 7 * 24 * 60 * 60"
    using Unix_plus [of "now w AtExp" "7 * 24 * 60 * 60"] by (simp add: Hour_def Minute_def)
  have n: "Unix (now w AtNbf) - 60 = Unix (now w AtIat) - 60
      \<longleftrightarrow> now w AtNbf div Second = now w AtIat div Second"
    using Unix_eq_iff [of "now w AtNbf" "- 60" "now w AtIat"] by simp
  have x: "Unix (now w AtExp) + 7 * 24 * 60 * 60 = Unix (now w AtIat) + 7 * 24 * 60 * 60
      \<longleftrightarrow> now w AtExp div Second = now w AtIat div Second"
    using Unix_eq_iff [of "now w AtExp" "7 * 24 * 60 * 60" "now w AtIat"] by simp
  from PassChallenge_signs [OF minted] obtain res rule c nonce token where
    "check e s r = Ok (res, rule)" "rule_Challenge rule = Some c"
    "Atoi (FormValue r ''nonce'') = Some nonce"
    "SignedString e (priv s)
       [''challenge'' \<mapsto> VString (challengeFor e s r (Difficulty c) (now w AtPassChallenge)),
        ''nonce'' \<mapsto> VInt nonce,
        ''response'' \<mapsto> VString (FormValue r ''response''),
        ''iat'' \<mapsto> VInt64 (Unix (now w AtIat)),
        ''nbf'' \<mapsto> VInt64 (Unix (now w AtNbf) - 60),
        ''exp'' \<mapsto> VInt64 (Unix (now w AtExp) + 7 * 24 * 60 * 60)] = Some token"
    "effects =
       [SetCookie \<lparr> cookieName = anubis_CookieName e, cookieValue = token,
                    cookieExpires = now w AtCookieExpires + 7 * 24 * Hour,
                    cookieSameSite = SameSiteLaxMode,
                    cookieDomain = CookieDomain (opts s),
                    cookiePartitioned = CookiePartitioned (opts s),
                    cookiePath = ''/'' \<rparr>]"
    unfolding nbf expiry by auto
  with n x show ?thesis by blast
qed

theorem PassChallenge_mint_witness:
  "\<exists>token. fst (snd (PassChallenge sample (server [] False 0) (world_at 0) quiet (solved 0 0)))
     = [SetCookie \<lparr> cookieName = ''within.website-x-cmd-anubis-auth'', cookieValue = token,
                      cookieExpires = 7 * 24 * Hour, cookieSameSite = SameSiteLaxMode,
                      cookieDomain = ''local.cetacean.club'', cookiePartitioned = True,
                      cookiePath = ''/'' \<rparr>]"
proof -
  obtain st' effects where m: "PassChallenge sample (server [] False 0) (world_at 0) quiet (solved 0 0)
      = (st', effects, Redirected ''/'' 302)"
    using PassChallenge_solved_0 by (metis prod.collapse)
  from PassChallenge_mint [OF m] m show ?thesis
    by (auto simp: sample_def server_def world_at_def)
qed

text \<open>As stated for every minted token, C8 fails: when the second changes between the
  reading for \<^verbatim>\<open>iat\<close> and the reading for \<^verbatim>\<open>exp\<close>, the pass succeeds and the token
  carries \<^verbatim>\<open>exp\<close> = \<^verbatim>\<open>iat\<close> + 7 days + 1 second; the gating handler reads these
  claims back from it.\<close>

theorem PassChallenge_mint_counterexample:
  "PassChallenge jwt_ext challenge_server tick quiet (solved 0 (monday - 1))
     = (quiet\<lparr> timeTaken := [Finite 420], challengesValidated := 1 \<rparr>,
        [SetCookie \<lparr> cookieName = ''within.website-x-cmd-anubis-auth'',
                     cookieValue = jwt_encode (priv challenge_server)
                        (session monday_challenge 1745193599 1745193539 1745798400),
                     cookieExpires = monday + 7 * Day,
                     cookieSameSite = SameSiteLaxMode,
                     cookieDomain = ''local.cetacean.club'', cookiePartitioned = True,
                     cookiePath = ''/'' \<rparr>],
        Redirected ''/'' 302)
   \<and> read_claim (ParseWithClaims jwt_ext (pub challenge_server) monday
          (jwt_encode (priv challenge_server) (session monday_challenge 1745193599 1745193539 1745798400)))
        ''iat'' = Some (VFloat64 (Finite 1745193599))
   \<and> read_claim (ParseWithClaims jwt_ext (pub challenge_server) monday
          (jwt_encode (priv challenge_server) (session monday_challenge 1745193599 1745193539 1745798400)))
        ''exp'' = Some (VFloat64 (Finite 1745798400))
   \<and> (1745798400 :: int) \<noteq> 1745193599 + 7 * 24 * 60 * 60"
proof -
  have "jwt_decode (pub challenge_server)
          (jwt_encode (priv challenge_server) (session monday_challenge 1745193599 1745193539 1745798400))
     = Some (map_of (zip jwt_keys
            [VString monday_challenge, VFloat64 (Finite 0), VString (monday_challenge @ ''0''),
             VFloat64 (Finite (of_int 1745193599)), VFloat64 (Finite (of_int 1745193539)),
             VFloat64 (Finite (of_int 1745798400))]))"
    by (rule jwt_decode_session) (simp_all add: monday_challenge_no_bar)
  then have reread: "jwt_verify (pub challenge_server) monday
          (jwt_encode (priv challenge_server) (session monday_challenge 1745193599 1745193539 1745798400))
     = Some (map_of (zip jwt_keys
            [VString monday_challenge, VFloat64 (Finite 0), VString (monday_challenge @ ''0''),
             VFloat64 (Finite 1745193599), VFloat64 (Finite 1745193539), VFloat64 (Finite 1745798400)]))"
    by (simp add: jwt_verify_def jwt_keys_def claim_def monday_Unix)
  have "PassChallenge jwt_ext challenge_server tick quiet (solved 0 (now tick AtPassChallenge))
     = (quiet\<lparr> timeTaken := [Finite 420], challengesValidated := 1 \<rparr>,
        [SetCookie \<lparr> cookieName = ''within.website-x-cmd-anubis-auth'',
                     cookieValue = jwt_encode (priv challenge_server)
                        (session (challengeFor jwt_ext challenge_server (bearer []) 0 (now tick AtPassChallenge))
                           (Unix (now tick AtIat)) (Unix (now tick AtNbf + (- 1) * Minute))
                           (Unix (now tick AtExp + 24 * 7 * Hour))),
                     cookieExpires = now tick AtCookieExpires + 24 * 7 * Hour,
                     cookieSameSite = SameSiteLaxMode,
                     cookieDomain = ''local.cetacean.club'', cookiePartitioned = True,
                     cookiePath = ''/'' \<rparr>],
        Redirected ''/'' 302)"
    by (rule PassChallenge_jwt)
  then show ?thesis
    unfolding tick_now tick_challenge tick_Unix
    by (simp add: Day_def read_claim_def reread jwt_keys_def claim_def)
qed

section \<open>The gating handler\<close>

lemma Header_Get_Add_other: "k \<noteq> k' \<Longrightarrow> Header_Get (Header_Add h k v) k' = Header_Get h k'"
  by (simp add: Header_Get_def Header_Add_def)

lemma dnsbl_block_not_listed:
  "\<not> dnsbl_listed s w st ip \<Longrightarrow> snd (dnsbl_block s w st ip) = None"
  by (auto simp: dnsbl_listed_def dnsbl_block_def DecayMap_Get_def AllGood_def Let_def
           split: option.splits prod.splits if_splits)

lemma dnsbl_block_listed:
  "dnsbl_listed s w st ip \<Longrightarrow> \<exists>resp. dnsbl_block s w st ip = (st, Some resp) \<and> resp \<noteq> AllGood"
  by (auto simp: dnsbl_listed_def dnsbl_block_def DecayMap_Get_def Let_def
           split: option.splits prod.splits if_splits)

lemma dnsbl_listed_Applications [simp]:
  "dnsbl_listed s w (st\<lparr> Applications := a \<rparr>) ip = dnsbl_listed s w st ip"
  by (simp add: dnsbl_listed_def)

lemma check_loop_match:
  "check_loop bots r = Ok (Some (res, b)) \<Longrightarrow>
     b \<in> set bots \<and> res = cr (''bot/'' @ Name b) (Action b) \<and> (\<exists>c. Rules b = Some c \<and> Check c r = Inr True)"
  by (induction bots) (auto split: option.splits sum.splits if_splits)

lemma check_Ok:
  assumes "check e s r = Ok (res, rule)"
  shows "(res = cr ''default/allow'' RuleAllow \<and> rule = Some (default_rule (policy s)))
       \<or> (\<exists>b. rule = Some b \<and> check_loop (Bots (policy s)) r = Ok (Some (res, b)))"
  using assms by (auto simp: check_def Let_def split: if_splits option.splits result.splits)

lemma Header_Values_Add: "Header_Values (Header_Add h k v) k = Header_Values h k @ [v]"
  by (simp add: Header_Values_def Header_Add_def split: option.splits)

lemma Header_Values_Add_other: "k \<noteq> k' \<Longrightarrow> Header_Values (Header_Add h k v) k' = Header_Values h k'"
  by (simp add: Header_Values_def Header_Add_def)

lemma Request_Cookie_Header [simp]: "Request_Cookie (r\<lparr> Header := h \<rparr>) name = Request_Cookie r name"
  by (simp add: Request_Cookie_def)

lemma Request_Cookie_Expires: "Request_Cookie r name = Some ckie \<Longrightarrow> cookieExpires ckie = 0"
  by (auto simp: Request_Cookie_def split: if_splits option.splits)

lemma RenderIndex_not_Forwarded: "RenderIndex e s w r rule \<noteq> Forwarded r'"
  by (simp add: RenderIndex_def Let_def split: option.splits sum.splits)

lemma add_rule_headers_X_Real_Ip:
  "Header_Get (Header (add_rule_headers e res r)) ''X-Real-Ip'' = Header_Get (Header r) ''X-Real-Ip''"
  by (simp add: add_rule_headers_def Header_Get_Add_other)

lemma add_rule_headers_Cookie:
  "Request_Cookie (add_rule_headers e res r) name = Request_Cookie r name"
  by (simp add: add_rule_headers_def)

lemma add_rule_headers_challengeFor:
  "challengeFor e' s (add_rule_headers e res r) d t = challengeFor e' s r d t"
  by (simp add: challengeFor_def challengeData_def UserAgent_def add_rule_headers_def Header_Get_Add_other)

lemma add_rule_headers_Status:
  "Header_Values (Header (add_rule_headers e res r)) ''X-Anubis-Status''
     = Header_Values (Header r) ''X-Anubis-Status''"
  by (simp add: add_rule_headers_def Header_Values_Add_other)

text \<open>The path of the gating handler to the full verification.\<close>

lemma MaybeReverseProxy_full_verification:
  assumes chk: "check e s r0 = Ok (res, rule)"
    and act: "crRule res = RuleChallenge"
    and free: "\<not> dnsbl_listed s w st (Header_Get (Header r0) ''X-Real-Ip'')"
    and ck: "Request_Cookie r0 (anubis_CookieName e) = Some ckie" "CookieValid e ckie"
    and tok: "ParseWithClaims e (pub s) (now w AtTokenParse) (cookieValue ckie) = Some claims"
    and coin: "\<not> randomJitter w"
  shows "\<exists>st1. MaybeReverseProxy e s w st r0
           = full_verification e s w st1
               (add_rule_headers e res r0) rule claims"
proof -
  let ?st0 = "st\<lparr> Applications := (Applications st)
                       ((crName res, crRule res) := Applications st (crName res, crRule res) + 1) \<rparr>"
  let ?ip = "Header_Get (Header r0) ''X-Real-Ip''"
  have "snd (dnsbl_block s w ?st0 ?ip) = None"
    using free by (intro dnsbl_block_not_listed) simp
  then obtain st1 where st1: "dnsbl_block s w ?st0 ?ip = (st1, None)"
    by (metis prod.collapse)
  have "MaybeReverseProxy e s w st r0
           = full_verification e s w st1
               (add_rule_headers e res r0) rule claims"
    using chk act st1 ck tok coin Request_Cookie_Expires [OF ck(1)]
    by (simp add: MaybeReverseProxy_def rule_switch_def Let_def add_rule_headers_X_Real_Ip
          add_rule_headers_Cookie cookie_check_def)
  then show ?thesis by blast
qed




lemma check_Ok_host: "check e s r = Ok x \<Longrightarrow> Header_Get (Header r) ''X-Real-Ip'' \<noteq> []"
  by (auto simp: check_def Let_def split: if_splits)

lemma DecayMap_Get_miss: "DecayMap_Get c t k = (m, v, False) \<Longrightarrow> v = 0"
  by (auto simp: DecayMap_Get_def split: option.splits if_splits)

lemma full_verification_cache:
  "DNSBLCache (fst (full_verification e s w st r rule claims)) = DNSBLCache st"
  by (simp add: full_verification_def clear_and_render_def Let_def split: option.splits iface.splits)

lemma cookie_check_cache: "DNSBLCache (fst (cookie_check e s w st r rule)) = DNSBLCache st"
  by (simp add: cookie_check_def clear_and_render_def full_verification_cache split: option.splits)

lemma rule_switch_cache: "DNSBLCache (fst (rule_switch e s w st r res rule)) = DNSBLCache st"
  by (simp add: rule_switch_def cookie_check_cache split: Rule.splits option.splits result.splits)

text \<open>C2, as amended: when the DNSBL lookup for the client IP fails with an error (the list
  is on and the cache has no live entry for the IP), the gating handler goes on to the switch
  on the action, as for an IP that is not listed, and stores the response that came with the
  error in the cache for 24 hours, as it does for any lookup.\<close>

theorem failed_lookup:
  assumes chk: "check e s r = Ok (res, rule)"
    and on: "DNSBL (policy s)"
    and miss: "DecayMap_Get (DNSBLCache st) (now w AtCacheGet) (Header_Get (Header r) ''X-Real-Ip'') = (m, v, False)"
    and fail: "Lookup w (Header_Get (Header r) ''X-Real-Ip'') = (resp, Some err)"
  shows "\<exists>st1. MaybeReverseProxy e s w st r = rule_switch e s w st1 (add_rule_headers e res r) res rule
           \<and> DNSBLCache st1 (Header_Get (Header r) ''X-Real-Ip'') = Some (resp, now w AtCacheSet + 24 * Hour)
           \<and> DNSBLCache (fst (MaybeReverseProxy e s w st r)) (Header_Get (Header r) ''X-Real-Ip'')
               = Some (resp, now w AtCacheSet + 24 * Hour)"
proof -
  let ?ip = "Header_Get (Header r) ''X-Real-Ip''"
  let ?st0 = "st\<lparr> Applications := (Applications st)
                       ((crName res, crRule res) := Applications st (crName res, crRule res) + 1) \<rparr>"
  let ?st1 = "?st0\<lparr> DNSBLCache := DecayMap_Set m (now w AtCacheSet) ?ip resp (24 * Hour),
                      droneBLHits := (droneBLHits ?st0)(resp := droneBLHits ?st0 resp + 1) \<rparr>"
  have ip: "?ip \<noteq> []" using chk by (rule check_Ok_host)
  have ip': "Header_Get (Header (add_rule_headers e res r)) ''X-Real-Ip'' = ?ip"
    by (simp add: add_rule_headers_def Header_Get_Add_other)
  have block: "dnsbl_block s w ?st0 ?ip = (?st1, None)"
    using on ip miss fail DecayMap_Get_miss [OF miss] by (simp add: dnsbl_block_def AllGood_def)
  have 1: "MaybeReverseProxy e s w st r = rule_switch e s w ?st1 (add_rule_headers e res r) res rule"
    using chk block by (simp add: MaybeReverseProxy_def Let_def ip')
  have 2: "DNSBLCache ?st1 ?ip = Some (resp, now w AtCacheSet + 24 * Hour)"
    by (simp add: DecayMap_Set_def)
  have 3: "DNSBLCache (fst (MaybeReverseProxy e s w st r)) ?ip = Some (resp, now w AtCacheSet + 24 * Hour)"
    unfolding 1 rule_switch_cache by (rule 2)
  from 1 2 3 show ?thesis by blast
qed

theorem failed_lookup_witness:
  "snd (MaybeReverseProxy sample (server [] True 4) failing_lookup quiet
          (request [(''X-Real-Ip'', ''127.0.0.1'')] [] []))
     = ([], Forwarded (add_rule_headers sample \<lparr> crName = ''default/allow'', crRule = RuleAllow \<rparr>
                         (request [(''X-Real-Ip'', ''127.0.0.1'')] [] [])))
   \<and> DNSBLCache (fst (MaybeReverseProxy sample (server [] True 4) failing_lookup quiet
                         (request [(''X-Real-Ip'', ''127.0.0.1'')] [] [])))
         ''127.0.0.1''
     = Some (255, 24 * Hour)"
proof -
  let ?s = "server [] True 4"
  let ?r = "request [(''X-Real-Ip'', ''127.0.0.1'')] [] []"
  have on: "DNSBL (policy ?s)" by (simp add: server_def)
  have miss: "DecayMap_Get (DNSBLCache quiet) (now failing_lookup AtCacheGet) (Header_Get (Header ?r) ''X-Real-Ip'')
                = (Map.empty, 0, False)"
    by (simp add: DecayMap_Get_def quiet_def)
  have fail: "Lookup failing_lookup (Header_Get (Header ?r) ''X-Real-Ip'') = (255, Some ''lookup: i/o timeout'')"
    by (simp add: failing_lookup_def)
  have t: "now failing_lookup AtCacheSet = 0"
    by (simp add: failing_lookup_def world_at_def)
  from failed_lookup [OF check_sample_none on miss fail]
  obtain st1 where "MaybeReverseProxy sample ?s failing_lookup quiet ?r
      = rule_switch sample ?s failing_lookup st1
          (add_rule_headers sample \<lparr> crName = ''default/allow'', crRule = RuleAllow \<rparr> ?r)
          \<lparr> crName = ''default/allow'', crRule = RuleAllow \<rparr>
          (Some (default_rule (policy ?s)))"
    and "DNSBLCache (fst (MaybeReverseProxy sample ?s failing_lookup quiet ?r))
            (Header_Get (Header ?r) ''X-Real-Ip'')
          = Some (255, now failing_lookup AtCacheSet + 24 * Hour)"
    by blast
  then show ?thesis
    by (simp add: rule_switch_def t)
qed

text \<open>As stated, C2 fails: after the failed lookup the cache holds an entry for the IP.\<close>

theorem failed_lookup_counterexample:
  "Lookup failing_lookup ''127.0.0.1'' = (255, Some ''lookup: i/o timeout'')
   \<and> DNSBLCache (fst (MaybeReverseProxy sample (server [] True 4) failing_lookup quiet
                      (request [(''X-Real-Ip'', ''127.0.0.1'')] [] [])))
       ''127.0.0.1''
     = Some (255, 24 * Hour)"
proof -
  have "dnsbl_block (server [] True 4) failing_lookup (quiet\<lparr> Applications := a \<rparr>) ''127.0.0.1''
          = (quiet\<lparr> Applications := a,
                    DNSBLCache := [''127.0.0.1'' \<mapsto> (255, 24 * Hour)],
                    droneBLHits := (\<lambda>resp. 0)(255 := 1) \<rparr>, None)" for a
    by (simp add: dnsbl_block_def quiet_def DecayMap_Get_def DecayMap_Set_def failing_lookup_def
          world_at_def server_def AllGood_def)
  then show ?thesis
    by (simp add: check_sample_none MaybeReverseProxy_def rule_switch_def add_rule_headers_def
          Header_Get_Add_other Let_def failing_lookup_def)
qed

text \<open>C10: in the full verification of a token that parsed (action challenge, the cookie
  present and valid, the coin not taken, the \<^verbatim>\<open>challenge\<close> claim equal to the recomputed
  challenge), a \<^verbatim>\<open>nonce\<close> claim that is missing or not a number counts as 0: the request
  is forwarded with \<^verbatim>\<open>X-Anubis-Status: PASS-FULL\<close> exactly when the \<^verbatim>\<open>response\<close> claim
  is the hex digest of the challenge followed by \<^verbatim>\<open>0\<close>.\<close>

theorem full_verification_nonce_default:
  assumes chk: "check e s r = Ok (res, rule)"
    and act: "crRule res = RuleChallenge"
    and free: "\<not> dnsbl_listed s w st (Header_Get (Header r) ''X-Real-Ip'')"
    and ck: "Request_Cookie r (anubis_CookieName e) = Some ckie" "CookieValid e ckie"
    and tok: "ParseWithClaims e (pub s) (now w AtTokenParse) (cookieValue ckie) = Some claims"
    and coin: "\<not> randomJitter w"
    and ch: "rule_Challenge rule = Some c"
    and same: "claim claims ''challenge'' = VString (challengeFor e s r (Difficulty c) (now w AtVerify))"
    and nonce: "\<forall>v. claim claims ''nonce'' \<noteq> VFloat64 v"
  shows "(\<exists>st' r'. MaybeReverseProxy e s w st r = (st', [], Forwarded r')
            \<and> Header_Values (Header r') ''X-Anubis-Status''
                = Header_Values (Header r) ''X-Anubis-Status'' @ [''PASS-FULL''])
         \<longleftrightarrow> claim claims ''response''
                = VString (SHA256sum e (challengeFor e s r (Difficulty c) (now w AtVerify) @ ''0''))"
proof -
  let ?r = "add_rule_headers e res r"
  let ?challenge = "challengeFor e s r (Difficulty c) (now w AtVerify)"
  from MaybeReverseProxy_full_verification [OF chk act free ck tok coin]
  obtain st1 where m: "MaybeReverseProxy e s w st r = full_verification e s w st1 ?r rule claims"
    by blast
  have cf: "challengeFor e s ?r d t = challengeFor e s r d t" for d t
    by (rule add_rule_headers_challengeFor)
  have n0: "(case claim claims ''nonce'' of VFloat64 v \<Rightarrow> int_of_float64 e v | _ \<Rightarrow> 0) = 0"
    using nonce by (cases "claim claims ''nonce''") auto
  show ?thesis
  proof (cases "claim claims ''response'' = VString (SHA256sum e (?challenge @ ''0''))")
    case True
    let ?r' = "?r\<lparr> Header := Header_Add (Header ?r) ''X-Anubis-Status'' ''PASS-FULL'' \<rparr>"
    have "full_verification e s w st1 ?r rule claims = (st1, [], Forwarded ?r')"
      unfolding full_verification_def ch cf Let_def n0 itoa_0 using same True by simp
    with m have 1: "MaybeReverseProxy e s w st r = (st1, [], Forwarded ?r')" by (rule trans)
    have 2: "Header_Values (Header ?r') ''X-Anubis-Status''
                = Header_Values (Header r) ''X-Anubis-Status'' @ [''PASS-FULL'']"
      by (simp add: Header_Values_Add add_rule_headers_Status)
    from 1 2 have "\<exists>st' r'. MaybeReverseProxy e s w st r = (st', [], Forwarded r')
            \<and> Header_Values (Header r') ''X-Anubis-Status''
                = Header_Values (Header r) ''X-Anubis-Status'' @ [''PASS-FULL'']"
      by blast
    with True show ?thesis by blast
  next
    case False
    have "full_verification e s w st1 ?r rule claims \<noteq> (st', [], Forwarded r')" for st' r'
      unfolding full_verification_def ch cf Let_def n0 itoa_0 clear_and_render_def
      using same False RenderIndex_not_Forwarded
      by (cases "claim claims ''response''") simp_all
    with m have "\<not> (\<exists>st' r'. MaybeReverseProxy e s w st r = (st', [], Forwarded r')
            \<and> Header_Values (Header r') ''X-Anubis-Status''
                = Header_Values (Header r) ''X-Anubis-Status'' @ [''PASS-FULL''])"
      by metis
    with False show ?thesis by blast
  qed
qed

theorem full_verification_nonce_default_witness:
  "\<exists>st' r'. MaybeReverseProxy
         (token_ext [''challenge'' \<mapsto> VString week_challenge, ''response'' \<mapsto> VString (week_challenge @ ''0'')])
         challenge_server (world_at 0) quiet visitor = (st', [], Forwarded r')
       \<and> Header_Values (Header r') ''X-Anubis-Status'' = [''PASS-FULL'']"
proof -
  let ?claims = "[''challenge'' \<mapsto> VString week_challenge, ''response'' \<mapsto> VString (week_challenge @ ''0'')]"
  have same: "claim ?claims ''challenge''
      = VString (challengeFor (token_ext ?claims) challenge_server visitor
          (Difficulty \<lparr> Difficulty = 0, ReportAs = 0, Algorithm = AlgorithmFast \<rparr>) (now (world_at 0) AtVerify))"
    by (simp add: claim_def visitor_challenge)
  have nonce: "\<forall>v. claim ?claims ''nonce'' \<noteq> VFloat64 v"
    by (simp add: claim_def)
  have tok: "ParseWithClaims (token_ext ?claims) (pub challenge_server) (now (world_at 0) AtTokenParse)
      (cookieValue \<lparr> cookieName = ''within.website-x-cmd-anubis-auth'', cookieValue = ''token'', cookieExpires = 0,
              cookieSameSite = SameSiteDefaultMode, cookieDomain = [],
              cookiePartitioned = False, cookiePath = [] \<rparr>) = Some ?claims"
    by (simp add: visitor_token)
  have none: "Header_Values (Header visitor) ''X-Anubis-Status'' = []"
    by (simp add: Header_Values_def visitor_def request_def)
  from full_verification_nonce_default [OF visitor_check visitor_action visitor_free
      visitor_cookie visitor_token(1) tok visitor_token(4) visitor_rule same nonce]
  show ?thesis
    by (simp add: visitor_challenge visitor_token claim_def none)
qed

lemma RenderIndex_not_Panicked:
  "rule_Challenge rule = Some c \<Longrightarrow> RenderIndex e s w r rule \<noteq> Panicked"
  by (simp add: RenderIndex_def Let_def split: sum.splits)




section \<open>Challenge derivation\<close>

lemma Round_nearest:
  assumes d: "0 < d" "even d"
  shows "Round t d = (t + d div 2) div d * d"
proof -
  from d(2) obtain h where h: "d = 2 * h" by (auto elim: evenE)
  with d(1) have h0: "0 < h" by simp
  let ?q = "t div d" and ?r = "t mod d"
  have r: "0 \<le> ?r" "?r < d" using d(1) by simp_all
  have t: "t = ?q * d + ?r" by simp
  have split: "(t + h) div d = ?q + (?r + h) div d"
  proof -
    have "t + h = (?r + h) + ?q * d" by simp
    then have "(t + h) div d = ((?r + h) + ?q * d) div d" by simp
    also have "\<dots> = (?r + h) div d + ?q" using d(1) by (subst div_mult_self1) simp_all
    finally show ?thesis by simp
  qed
  show ?thesis
  proof (cases "?r + ?r < d")
    case True
    with h have "?r + h < d" by linarith
    with r h0 have "(?r + h) div d = 0" by (simp add: div_pos_pos_trivial)
    with split have "(t + h) div d = ?q" by simp
    then have "(t + d div 2) div d * d = ?q * d" using h by simp
    also have "\<dots> = t - ?r" by (simp add: minus_mod_eq_div_mult [symmetric])
    finally show ?thesis using True d(1) by (simp add: Round_def Let_def)
  next
    case False
    with h have ge: "d \<le> ?r + h" by linarith
    from r h h0 have lt: "?r + h - d < d" by linarith
    have "(?r + h) div d = (?r + h - d) div d + 1"
      using d(1) by (metis add.commute diff_add_cancel div_add_self2 less_irrefl)
    also have "(?r + h - d) div d = 0" using ge lt by (simp add: div_pos_pos_trivial)
    finally have "(t + h) div d = ?q + 1" using split by simp
    then have "(t + d div 2) div d * d = (?q + 1) * d" using h by simp
    also have "\<dots> = ?q * d + d" by (simp add: algebra_simps)
    also have "?q * d = t - ?r" by (simp add: minus_mod_eq_div_mult [symmetric])
    finally show ?thesis using False d(1) by (simp add: Round_def Let_def)
  qed
qed

lemma week_even: "0 < 24 * 7 * Hour" "even (24 * 7 * Hour)"
  by (simp_all add: Hour_def Minute_def Second_def)

lemma challengeData_agree:
  assumes "Header_Get (Header r1) ''Accept-Language'' = Header_Get (Header r2) ''Accept-Language''"
    and "Header_Get (Header r1) ''X-Real-Ip'' = Header_Get (Header r2) ''X-Real-Ip''"
    and "Header_Get (Header r1) ''User-Agent'' = Header_Get (Header r2) ''User-Agent''"
    and "Seed (priv s1) = Seed (priv s2)"
  shows "challengeData e s1 r1 d t1 = challengeData e s2 r2 d t2
     \<longleftrightarrow> FormatRFC3339 e (Round t1 (24 * 7 * Hour)) = FormatRFC3339 e (Round t2 (24 * 7 * Hour))"
  using assms by (simp add: challengeData_def UserAgent_def)

lemma returning_headers:
  "Header_Get (Header visitor) k = Header_Get (Header (solved 4 0)) k"
  by (simp add: visitor_def solved_def)

lemma returning_differs: "visitor \<noteq> solved 4 0" "challenge_server \<noteq> server [] False 4"
   "Seed (priv challenge_server) = Seed (priv (server [] False 4))"
  by (auto simp: visitor_def solved_def request_def challenge_server_def server_def)

text \<open>C3, as amended: the \<^verbatim>\<open>WeekTime\<close> component is the current UTC time rounded to the
  nearest multiple of 7 days since the zero time, halfway values rounding up, so that a window
  runs from a Thursday noon to the next.  Take any two derivations, of two requests on two
  servers, that agree on the three headers the challenge reads (as they do when the request
  headers are identical), on the seed of the signing key and on the difficulty.  If their times
  lie in the same such window they give equal challenges; if their times lie in different
  windows the rounded times differ, and the challenges differ as long as neither the time
  layout nor the digest collides on them.\<close>

theorem challengeFor_week:
  assumes headers:
      "Header_Get (Header r1) ''Accept-Language'' = Header_Get (Header r2) ''Accept-Language''"
      "Header_Get (Header r1) ''X-Real-Ip'' = Header_Get (Header r2) ''X-Real-Ip''"
      "Header_Get (Header r1) ''User-Agent'' = Header_Get (Header r2) ''User-Agent''"
    and seed: "Seed (priv s1) = Seed (priv s2)"
  shows
  "((t1 + 24 * 7 * Hour div 2) div (24 * 7 * Hour) = (t2 + 24 * 7 * Hour div 2) div (24 * 7 * Hour)
      \<longrightarrow> challengeFor e s1 r1 d t1 = challengeFor e s2 r2 d t2)
   \<and> ((t1 + 24 * 7 * Hour div 2) div (24 * 7 * Hour) \<noteq> (t2 + 24 * 7 * Hour div 2) div (24 * 7 * Hour)
      \<longrightarrow> Round t1 (24 * 7 * Hour) \<noteq> Round t2 (24 * 7 * Hour))
   \<and> ((t1 + 24 * 7 * Hour div 2) div (24 * 7 * Hour) \<noteq> (t2 + 24 * 7 * Hour div 2) div (24 * 7 * Hour)
        \<and> inj_on (FormatRFC3339 e) {Round t1 (24 * 7 * Hour), Round t2 (24 * 7 * Hour)}
        \<and> inj_on (SHA256sum e) {challengeData e s1 r1 d t1, challengeData e s2 r2 d t2}
      \<longrightarrow> challengeFor e s1 r1 d t1 \<noteq> challengeFor e s2 r2 d t2)"
proof -
  let ?W = "24 * 7 * Hour"
  note agree = challengeData_agree [OF headers seed]
  have R: "Round t ?W = (t + ?W div 2) div ?W * ?W" for t
    by (rule Round_nearest [OF week_even])
  have W0: "?W \<noteq> 0" using week_even(1) by simp
  have same: "challengeFor e s1 r1 d t1 = challengeFor e s2 r2 d t2"
    if "(t1 + ?W div 2) div ?W = (t2 + ?W div 2) div ?W"
  proof -
    from that have "Round t1 ?W = Round t2 ?W" unfolding R by (rule arg_cong)
    then have "FormatRFC3339 e (Round t1 ?W) = FormatRFC3339 e (Round t2 ?W)" by (rule arg_cong)
    then have "challengeData e s1 r1 d t1 = challengeData e s2 r2 d t2" by (simp only: agree)
    then show ?thesis by (simp only: challengeFor_def)
  qed
  have diff: "Round t1 ?W \<noteq> Round t2 ?W"
    if "(t1 + ?W div 2) div ?W \<noteq> (t2 + ?W div 2) div ?W"
    using that W0 unfolding R by simp
  have far: "challengeFor e s1 r1 d t1 \<noteq> challengeFor e s2 r2 d t2"
    if w: "(t1 + ?W div 2) div ?W \<noteq> (t2 + ?W div 2) div ?W"
      and f: "inj_on (FormatRFC3339 e) {Round t1 ?W, Round t2 ?W}"
      and h: "inj_on (SHA256sum e) {challengeData e s1 r1 d t1, challengeData e s2 r2 d t2}"
  proof
    assume "challengeFor e s1 r1 d t1 = challengeFor e s2 r2 d t2"
    then have "SHA256sum e (challengeData e s1 r1 d t1) = SHA256sum e (challengeData e s2 r2 d t2)"
      by (simp only: challengeFor_def)
    with h have "challengeData e s1 r1 d t1 = challengeData e s2 r2 d t2"
      by (rule inj_onD) simp_all
    then have "FormatRFC3339 e (Round t1 ?W) = FormatRFC3339 e (Round t2 ?W)"
      by (simp only: agree)
    with f have "Round t1 ?W = Round t2 ?W" by (rule inj_onD) simp_all
    with diff [OF w] show False by contradiction
  qed
  show ?thesis
  proof (intro conjI impI)
    assume "(t1 + ?W div 2) div ?W = (t2 + ?W div 2) div ?W"
    then show "challengeFor e s1 r1 d t1 = challengeFor e s2 r2 d t2" by (rule same)
  next
    assume "(t1 + ?W div 2) div ?W \<noteq> (t2 + ?W div 2) div ?W"
    then show "Round t1 ?W \<noteq> Round t2 ?W" by (rule diff)
  next
    assume a: "(t1 + ?W div 2) div ?W \<noteq> (t2 + ?W div 2) div ?W
        \<and> inj_on (FormatRFC3339 e) {Round t1 ?W, Round t2 ?W}
        \<and> inj_on (SHA256sum e) {challengeData e s1 r1 d t1, challengeData e s2 r2 d t2}"
    show "challengeFor e s1 r1 d t1 \<noteq> challengeFor e s2 r2 d t2"
      by (rule far [OF a [THEN conjunct1] a [THEN conjunct2, THEN conjunct1]
            a [THEN conjunct2, THEN conjunct2]])
  qed
qed

theorem challengeFor_week_witness:
  "visitor \<noteq> solved 4 0 \<and> challenge_server \<noteq> server [] False 4
   \<and> challengeFor sample challenge_server visitor 4 (monday + 1 * Day)
     = challengeFor sample (server [] False 4) (solved 4 0) 4 (monday + 3 * Day)
   \<and> challengeFor sample challenge_server visitor 4 (monday + 3 * Day)
     \<noteq> challengeFor sample (server [] False 4) (solved 4 0) 4 (monday + 4 * Day)"
proof -
  let ?W = "24 * 7 * Hour"
  note th = challengeFor_week [of visitor "solved 4 0" challenge_server "server [] False 4",
      OF returning_headers returning_headers returning_headers returning_differs(3)]
  have same: "(monday + 1 * Day + ?W div 2) div ?W = (monday + 3 * Day + ?W div 2) div ?W"
    by (simp add: monday_def Day_def Hour_def Minute_def Second_def)
  have other: "(monday + 3 * Day + ?W div 2) div ?W \<noteq> (monday + 4 * Day + ?W div 2) div ?W"
    by (simp add: monday_def Day_def Hour_def Minute_def Second_def)
  have "RFC3339 monday \<noteq> RFC3339 (monday + 7 * Day)"
    by (simp add: RFC3339_monday RFC3339_next_monday)
  then have fmt: "inj_on (FormatRFC3339 sample) {Round (monday + 3 * Day) ?W, Round (monday + 4 * Day) ?W}"
    unfolding monday_rounds by (auto simp: sample_def inj_on_def)
  have dig: "inj_on (SHA256sum sample)
      {challengeData sample challenge_server visitor 4 (monday + 3 * Day),
       challengeData sample (server [] False 4) (solved 4 0) 4 (monday + 4 * Day)}"
    by (simp add: sample_def inj_on_def)
  have 1: "challengeFor sample challenge_server visitor 4 (monday + 1 * Day)
     = challengeFor sample (server [] False 4) (solved 4 0) 4 (monday + 3 * Day)"
    by (rule th [THEN conjunct1, THEN mp, OF same])
  have 2: "challengeFor sample challenge_server visitor 4 (monday + 3 * Day)
     \<noteq> challengeFor sample (server [] False 4) (solved 4 0) 4 (monday + 4 * Day)"
    by (rule th [THEN conjunct2, THEN conjunct2, THEN mp, OF conjI [OF other conjI [OF fmt dig]]])
  from returning_differs(1,2) 1 2 show ?thesis by (intro conjI)
qed

text \<open>As stated with rounding down, C3 fails: one second before a multiple of 7 days and
  the multiple itself give the same challenge, whether the multiples are counted from the zero
  time or from 1970.\<close>

theorem challengeFor_week_counterexample:
  "monday mod (24 * 7 * Hour) = 0
   \<and> challengeFor sample challenge_server visitor 4 (monday - Second)
     = challengeFor sample challenge_server visitor 4 monday
   \<and> Unix thursday mod (24 * 7 * 60 * 60) = 0
   \<and> challengeFor sample challenge_server visitor 4 (thursday - Second)
     = challengeFor sample challenge_server visitor 4 thursday"
proof -
  have "monday mod (24 * 7 * Hour) = 0"
    by (simp add: monday_def Hour_def Minute_def Second_def)
  moreover have "Unix thursday mod (24 * 7 * 60 * 60) = 0"
    by (simp add: thursday_def Unix_def Second_def)
  ultimately show ?thesis
    by (simp only: challengeFor_def challengeData_def monday_rounds simp_thms)
qed

end
